theory Spec2Isabelle
  imports Complex_Main "HOL-Library.Word"
begin

unbundle bit_operations_syntax

section \<open>Outcome generator (server/lib/plinko.ts, class PlinkoSimulator)\<close>

text \<open>
  JavaScript numbers are modelled by exact numbers: integers by \<open>int\<close>, the samples of
  the random source by \<open>rat\<close>. Every integer the generator computes stays below
  \<open>2 ^ 53\<close> in absolute value, so the integer arithmetic of the source is exact. The
  quotient that makes a sample and the products with a sample are rounded to the nearest
  double by the source and are exact here. A seed is a string of characters with codes
  below 256.
\<close>

datatype direction = Left | Right

record PlinkoPath =
  pp_x :: int
  pp_y :: int
  pp_direction :: direction

record DropResult =
  dr_path :: "PlinkoPath list"
  dr_finalSlot :: int
  dr_amountCents :: int

record tier =
  tmin :: int
  tmax :: int
  weight :: int

definition BOARD_WIDTH :: int where
  "BOARD_WIDTH = 7"

definition BOARD_HEIGHT :: nat where
  "BOARD_HEIGHT = 8"

definition PEG_SPACING :: int where
  "PEG_SPACING = 1"

definition PRIZE_DISTRIBUTION :: "tier list" where
  "PRIZE_DISTRIBUTION =
     [\<lparr>tmin = 1, tmax = 5, weight = 40\<rparr>,
      \<lparr>tmin = 6, tmax = 15, weight = 30\<rparr>,
      \<lparr>tmin = 16, tmax = 35, weight = 20\<rparr>,
      \<lparr>tmin = 36, tmax = 65, weight = 8\<rparr>,
      \<lparr>tmin = 66, tmax = 100, weight = 2\<rparr>]"

subsection \<open>The random source\<close>

text \<open>
  \<open>ToInt32\<close> of JavaScript: the bitwise operators \<open><<\<close> and \<open>&\<close> reduce their
  operands and results to signed 32-bit integers.
\<close>

definition to_int32 :: "int \<Rightarrow> int" where
  "to_int32 v = (v + 2 ^ 31) mod 2 ^ 32 - 2 ^ 31"

definition js_shl :: "int \<Rightarrow> nat \<Rightarrow> int" where
  "js_shl v n = to_int32 (to_int32 v * 2 ^ n)"

definition js_and :: "int \<Rightarrow> int \<Rightarrow> int" where
  "js_and a b = to_int32 (to_int32 a AND to_int32 b)"

text \<open>The remainder operator \<open>%\<close> of JavaScript truncates: the result has the sign of the dividend.\<close>

definition js_rem :: "int \<Rightarrow> int \<Rightarrow> int" where
  "js_rem a b = sgn a * (\<bar>a\<bar> mod \<bar>b\<bar>)"

definition charCodeAt :: "char \<Rightarrow> int" where
  "charCodeAt c = int (of_char c)"

text \<open>The loop of \<open>createSeededRandom\<close> over the characters of the seed.\<close>

fun seed_hash :: "int \<Rightarrow> string \<Rightarrow> int" where
  "seed_hash hash [] = hash"
| "seed_hash hash (c # cs) =
     (let hash1 = (js_shl hash 5 - hash) + charCodeAt c;
          hash2 = js_and hash1 hash1
      in seed_hash hash2 cs)"

text \<open>
  A random source is either the closure returned by \<open>createSeededRandom\<close>, whose state
  is the variable \<open>hash\<close>, or \<open>Math.random\<close>, whose successive samples are given by
  the environment.
\<close>

datatype rng = SeededRandom int | MathRandom "nat \<Rightarrow> rat"

definition createSeededRandom :: "string \<Rightarrow> rng" where
  "createSeededRandom seed = SeededRandom (seed_hash 0 seed)"

fun rng_next :: "rng \<Rightarrow> rat \<times> rng" where
  "rng_next (SeededRandom hash) =
     (let hash' = js_rem (hash * 9301 + 49297) 233280
      in (of_int hash' / 233280, SeededRandom hash'))"
| "rng_next (MathRandom f) = (f 0, MathRandom (\<lambda>n. f (Suc n)))"

subsection \<open>simulateDrop and calculatePrize\<close>

text \<open>The loop of \<open>calculatePrize\<close> over the tiers, with the running \<open>currentWeight\<close>.\<close>

fun pick_tier :: "tier list \<Rightarrow> int \<Rightarrow> rat \<Rightarrow> rng \<Rightarrow> int" where
  "pick_tier [] currentWeight randomWeight r = 1"
| "pick_tier (t # ts) currentWeight randomWeight r =
     (let currentWeight' = currentWeight + weight t
      in if randomWeight \<le> of_int currentWeight'
         then \<lfloor>fst (rng_next r) * of_int (tmax t - tmin t + 1)\<rfloor> + tmin t
         else pick_tier ts currentWeight' randomWeight r)"

definition calculatePrize :: "int \<Rightarrow> rng \<Rightarrow> int" where
  "calculatePrize slot r =
     (let totalWeight = foldl (\<lambda>sum t. sum + weight t) 0 PRIZE_DISTRIBUTION;
          (u, r1) = rng_next r;
          randomWeight = u * of_int totalWeight
      in pick_tier PRIZE_DISTRIBUTION 0 randomWeight r1)"

text \<open>
  The loop of \<open>simulateDrop\<close> over the rows; it returns the final column, the path
  and the state of the random source after the descent.
\<close>

function drop_rows :: "nat \<Rightarrow> int \<Rightarrow> rng \<Rightarrow> PlinkoPath list \<Rightarrow> int \<times> PlinkoPath list \<times> rng" where
  "drop_rows row currentX r p =
     (if row < BOARD_HEIGHT then
        (let y0 = int row * PEG_SPACING;
             (u, r') = rng_next r;
             d = (if u < 1 / 2 then Left else Right);
             currentX' = (if d = Left \<and> currentX > 0 then currentX - 1
                          else if d = Right \<and> currentX < BOARD_WIDTH - 1 then currentX + 1
                          else currentX)
         in drop_rows (Suc row) currentX' r'
              (p @ [\<lparr>pp_x = currentX' * PEG_SPACING, pp_y = y0, pp_direction = d\<rparr>]))
      else (currentX, p, r))"
  by pat_completeness auto
termination
  by (relation "measure (\<lambda>(row, currentX, r, p). BOARD_HEIGHT - row)") auto

text \<open>
  \<open>seed ? this.createSeededRandom(seed) : Math.random\<close>: an absent seed and the empty
  string are both falsy.
\<close>

definition choose_rng :: "string option \<Rightarrow> (nat \<Rightarrow> rat) \<Rightarrow> rng" where
  "choose_rng seed mathRandom =
     (case seed of
        None \<Rightarrow> MathRandom mathRandom
      | Some s \<Rightarrow> if s = [] then MathRandom mathRandom else createSeededRandom s)"

definition simulateDrop :: "string option \<Rightarrow> (nat \<Rightarrow> rat) \<Rightarrow> DropResult" where
  "simulateDrop seed mathRandom =
     (let r = choose_rng seed mathRandom;
          (currentX, p, r') = drop_rows 0 (BOARD_WIDTH div 2) r [];
          finalSlot0 = currentX;
          amount = calculatePrize finalSlot0 r'
      in \<lparr>dr_path = p, dr_finalSlot = finalSlot0, dr_amountCents = amount\<rparr>)"

definition validateDropResult :: "DropResult \<Rightarrow> bool" where
  "validateDropResult result \<longleftrightarrow>
     dr_amountCents result \<ge> 1 \<and> dr_amountCents result \<le> 100 \<and>
     dr_finalSlot result \<ge> 0 \<and> dr_finalSlot result < BOARD_WIDTH \<and>
     int (length (dr_path result)) = int BOARD_HEIGHT"

text \<open>
  A random source all of whose samples lie in \<open>[0, 1)\<close>: \<open>Math.random\<close> by its
  contract, the seeded generator once its state is not negative.
\<close>

fun unit_samples :: "rng \<Rightarrow> bool" where
  "unit_samples (SeededRandom hash) = (0 \<le> hash)"
| "unit_samples (MathRandom f) = (\<forall>n. 0 \<le> f n \<and> f n < 1)"

declare drop_rows.simps [simp del]

section \<open>Quota ledger (server/lib/redis.ts, class RedisTicketManager)\<close>

text \<open>
  Times are milliseconds. A Redis value is a decimal string holding an integer, modelled
  by the integer. A Redis key with an expiry time is gone once the time has passed;
  \<open>GET\<close> then returns nil, \<open>SETEX\<close> stores a value with a time to live in seconds,
  and \<open>DECR\<close> decrements in place, keeping the expiry (an absent key counts as 0).
\<close>

record redis_entry =
  rvalue :: int
  expireAt :: "int option"

type_synonym redis_db = "string \<Rightarrow> redis_entry option"

definition redis_live :: "int \<Rightarrow> redis_db \<Rightarrow> string \<Rightarrow> redis_entry option" where
  "redis_live now db key =
     (case db key of
        None \<Rightarrow> None
      | Some e \<Rightarrow>
          (case expireAt e of
             None \<Rightarrow> Some e
           | Some t \<Rightarrow> if now > t then None else Some e))"

definition redis_GET :: "int \<Rightarrow> redis_db \<Rightarrow> string \<Rightarrow> int option" where
  "redis_GET now db key = map_option rvalue (redis_live now db key)"

definition redis_SETEX :: "int \<Rightarrow> redis_db \<Rightarrow> string \<Rightarrow> int \<Rightarrow> int \<Rightarrow> redis_db" where
  "redis_SETEX now db key seconds v =
     db(key \<mapsto> \<lparr>rvalue = v, expireAt = Some (now + seconds * 1000)\<rparr>)"

definition redis_DECR :: "int \<Rightarrow> redis_db \<Rightarrow> string \<Rightarrow> redis_db" where
  "redis_DECR now db key =
     (case redis_live now db key of
        None \<Rightarrow> db(key \<mapsto> \<lparr>rvalue = - 1, expireAt = None\<rparr>)
      | Some e \<Rightarrow> db(key \<mapsto> e\<lparr>rvalue := rvalue e - 1\<rparr>))"

text \<open>The Lua script that \<open>consumeTicket\<close> evaluates atomically on the server.\<close>

definition consume_script :: "int \<Rightarrow> redis_db \<Rightarrow> string \<Rightarrow> int \<times> redis_db" where
  "consume_script now db key =
     (case redis_GET now db key of
        None \<Rightarrow> (1, redis_SETEX now db key 86400 2)
      | Some current \<Rightarrow>
          if current > 0 then (1, redis_DECR now db key) else (0, db))"

record ticket_data =
  td_tickets :: int
  td_expiry :: int

text \<open>
  The state of the module: the flag \<open>redisAvailable\<close>, the contents of the Redis server
  and the process-local \<open>memoryStore\<close>.
\<close>

record tm_state =
  redisAvailable :: bool
  redis :: redis_db
  memoryStore :: "string \<Rightarrow> ticket_data option"

definition toLowerCase :: "string \<Rightarrow> string" where
  "toLowerCase s =
     map (\<lambda>c. let n = (of_char c :: nat)
               in if 65 \<le> n \<and> n \<le> 90 then char_of (n + 32) else c) s"

definition getTicketKey :: "string \<Rightarrow> string" where
  "getTicketKey walletAddress = ''tickets:'' @ toLowerCase walletAddress"

definition getTicketsFromMemory :: "int \<Rightarrow> string \<Rightarrow> tm_state \<Rightarrow> int \<times> tm_state" where
  "getTicketsFromMemory now walletAddress st =
     (let key = getTicketKey walletAddress;
          fresh = (3, st\<lparr>memoryStore := (memoryStore st)
                     (key \<mapsto> \<lparr>td_tickets = 3, td_expiry = now + 24 * 60 * 60 * 1000\<rparr>)\<rparr>)
      in case memoryStore st key of
           None \<Rightarrow> fresh
         | Some data \<Rightarrow> if now > td_expiry data then fresh else (td_tickets data, st))"

definition consumeTicketFromMemory :: "int \<Rightarrow> string \<Rightarrow> tm_state \<Rightarrow> bool \<times> tm_state" where
  "consumeTicketFromMemory now walletAddress st =
     (let key = getTicketKey walletAddress;
          fresh = (True, st\<lparr>memoryStore := (memoryStore st)
                     (key \<mapsto> \<lparr>td_tickets = 2, td_expiry = now + 24 * 60 * 60 * 1000\<rparr>)\<rparr>)
      in case memoryStore st key of
           None \<Rightarrow> fresh
         | Some data \<Rightarrow>
             if now > td_expiry data then fresh
             else if td_tickets data > 0
             then (True, st\<lparr>memoryStore := (memoryStore st)
                     (key \<mapsto> data\<lparr>td_tickets := td_tickets data - 1\<rparr>)\<rparr>)
             else (False, st))"

definition resetTicketsInMemory :: "int \<Rightarrow> string \<Rightarrow> tm_state \<Rightarrow> tm_state" where
  "resetTicketsInMemory now walletAddress st =
     st\<lparr>memoryStore := (memoryStore st)
          (getTicketKey walletAddress \<mapsto> \<lparr>td_tickets = 3, td_expiry = now + 24 * 60 * 60 * 1000\<rparr>)\<rparr>"

text \<open>
  The public methods. The parameter \<open>reachable\<close> says whether the Redis command of this
  call gets through; when it does not, the client throws, the \<open>catch\<close> clears
  \<open>redisAvailable\<close> and the method falls back to the memory store.
\<close>

definition getRemainingTickets :: "bool \<Rightarrow> int \<Rightarrow> string \<Rightarrow> tm_state \<Rightarrow> int \<times> tm_state" where
  "getRemainingTickets reachable now walletAddress st =
     (if \<not> redisAvailable st then getTicketsFromMemory now walletAddress st
      else if reachable then
        (let key = getTicketKey walletAddress
         in case redis_GET now (redis st) key of
              None \<Rightarrow> (3, st\<lparr>redis := redis_SETEX now (redis st) key (24 * 60 * 60) 3\<rparr>)
            | Some t \<Rightarrow> (t, st))
      else getTicketsFromMemory now walletAddress (st\<lparr>redisAvailable := False\<rparr>))"

definition consumeTicket :: "bool \<Rightarrow> int \<Rightarrow> string \<Rightarrow> tm_state \<Rightarrow> bool \<times> tm_state" where
  "consumeTicket reachable now walletAddress st =
     (if \<not> redisAvailable st then consumeTicketFromMemory now walletAddress st
      else if reachable then
        (let key = getTicketKey walletAddress;
             (result, db') = consume_script now (redis st) key
         in (result = 1, st\<lparr>redis := db'\<rparr>))
      else consumeTicketFromMemory now walletAddress (st\<lparr>redisAvailable := False\<rparr>))"

definition resetTickets :: "bool \<Rightarrow> int \<Rightarrow> string \<Rightarrow> tm_state \<Rightarrow> tm_state" where
  "resetTickets reachable now walletAddress st =
     (if \<not> redisAvailable st then resetTicketsInMemory now walletAddress st
      else if reachable then
        st\<lparr>redis := redis_SETEX now (redis st) (getTicketKey walletAddress) (24 * 60 * 60) 3\<rparr>
      else resetTicketsInMemory now walletAddress (st\<lparr>redisAvailable := False\<rparr>))"

subsection \<open>The quota record a principal has at a given time\<close>

text \<open>
  What either store holds for a key at time \<open>now\<close>: nothing when there is no record or
  its window has elapsed, otherwise the remaining count and the end of the window.
\<close>

record QuotaRecord =
  remaining :: int
  windowExpiresAt :: "int option"

definition redis_quota :: "int \<Rightarrow> redis_db \<Rightarrow> string \<Rightarrow> QuotaRecord option" where
  "redis_quota now db key =
     map_option (\<lambda>e. \<lparr>remaining = rvalue e, windowExpiresAt = expireAt e\<rparr>) (redis_live now db key)"

definition memory_quota :: "int \<Rightarrow> (string \<Rightarrow> ticket_data option) \<Rightarrow> string \<Rightarrow> QuotaRecord option" where
  "memory_quota now m key =
     (case m key of
        None \<Rightarrow> None
      | Some data \<Rightarrow>
          if now > td_expiry data then None
          else Some \<lparr>remaining = td_tickets data, windowExpiresAt = Some (td_expiry data)\<rparr>)"

text \<open>The store a call of \<open>consumeTicket\<close> works on, and the record it holds there.\<close>

definition uses_redis :: "bool \<Rightarrow> tm_state \<Rightarrow> bool" where
  "uses_redis reachable st \<longleftrightarrow> redisAvailable st \<and> reachable"

definition quota :: "bool \<Rightarrow> int \<Rightarrow> tm_state \<Rightarrow> string \<Rightarrow> QuotaRecord option" where
  "quota shared now st key =
     (if shared then redis_quota now (redis st) key else memory_quota now (memoryStore st) key)"

definition tickets_nonneg :: "tm_state \<Rightarrow> bool" where
  "tickets_nonneg st \<longleftrightarrow>
     (\<forall>key e. redis st key = Some e \<longrightarrow> 0 \<le> rvalue e) \<and>
     (\<forall>key d. memoryStore st key = Some d \<longrightarrow> 0 \<le> td_tickets d)"

definition tm_initial :: tm_state where
  "tm_initial = \<lparr>redisAvailable = False, redis = Map.empty, memoryStore = Map.empty\<rparr>"

text \<open>The states the ticket manager can reach through its three public methods.\<close>

inductive tm_reachable :: "tm_state \<Rightarrow> bool" where
  tm_init: "tm_reachable (tm_initial\<lparr>redisAvailable := b\<rparr>)"
| tm_flag: "tm_reachable st \<Longrightarrow> tm_reachable (st\<lparr>redisAvailable := b\<rparr>)"
| tm_get: "tm_reachable st \<Longrightarrow> tm_reachable (snd (getRemainingTickets reachable now w st))"
| tm_consume: "tm_reachable st \<Longrightarrow> tm_reachable (snd (consumeTicket reachable now w st))"
| tm_reset: "tm_reachable st \<Longrightarrow> tm_reachable (resetTickets reachable now w st)"

section \<open>Redemption validator (contracts/ClaimVault.sol)\<close>

type_synonym uint256 = "256 word"
type_synonym address = "160 word"
type_synonym bytes32 = "256 word"
type_synonym bytes = "8 word list"

subsection \<open>Packed encoding\<close>

text \<open>
  \<open>abi.encodePacked\<close> writes a \<open>uint256\<close> and a \<open>bytes32\<close> as 32 bytes and an
  \<open>address\<close> as 20 bytes, most significant byte first, with no padding between them.
\<close>

fun to_be_bytes :: "nat \<Rightarrow> 'a::len word \<Rightarrow> bytes" where
  "to_be_bytes 0 w = []"
| "to_be_bytes (Suc n) w = ucast (drop_bit (8 * n) w) # to_be_bytes n w"

fun from_be_bytes :: "bytes \<Rightarrow> 'a::len word" where
  "from_be_bytes [] = 0"
| "from_be_bytes (b # bs) = push_bit (8 * length bs) (ucast b) OR from_be_bytes bs"

definition encodePacked_voucher ::
  "uint256 \<Rightarrow> address \<Rightarrow> bytes32 \<Rightarrow> uint256 \<Rightarrow> address \<Rightarrow> bytes" where
  "encodePacked_voucher amountCents recipient nonce expiry self =
     to_be_bytes 32 amountCents @ to_be_bytes 20 recipient @ to_be_bytes 32 nonce
       @ to_be_bytes 32 expiry @ to_be_bytes 20 self"

definition string_bytes :: "string \<Rightarrow> bytes" where
  "string_bytes s = map (\<lambda>c. word_of_nat (of_char c)) s"

text \<open>The string literal \<open>"\x19Ethereum Signed Message:\n32"\<close>.\<close>

definition eth_message_prefix32 :: bytes where
  "eth_message_prefix32 = 25 # string_bytes ''Ethereum Signed Message:'' @ [10] @ string_bytes ''32''"

subsection \<open>Primitives of the platform\<close>

text \<open>
  The hash \<open>keccak256\<close> and the precompile \<open>ecrecover\<close> are given by the platform. For
  the issuer, \<open>ecdsa_sign\<close> is the signing operation of its key and \<open>address_of\<close> the
  address that belongs to a key. They are parameters of the model.
\<close>

record crypto =
  keccak256 :: "bytes \<Rightarrow> bytes32"
  ecrecover :: "bytes32 \<Rightarrow> 8 word \<Rightarrow> bytes32 \<Rightarrow> bytes32 \<Rightarrow> address"
  ecdsa_sign :: "bytes32 \<Rightarrow> bytes32 \<Rightarrow> bytes32 \<times> bytes32 \<times> 8 word"
  address_of :: "bytes32 \<Rightarrow> address"

subsection \<open>State, errors and events\<close>

datatype vault_error =
    InvalidSignature | VoucherExpired | AlreadyRedeemed | RecipientMismatch
  | InsufficientFunds | InvalidAmount | ZeroAddress
  | Require string | Panic nat | TokenRevert

datatype event =
    Redeemed address uint256 uint256 bytes32 bytes32
  | SignerUpdated address address
  | FundsDeposited address uint256
  | FundsWithdrawn address nat
  | Paused address
  | Unpaused address
  | OwnershipTransferred address address

text \<open>
  The storage of the contract (with the state of the inherited \<open>Ownable\<close>,
  \<open>Pausable\<close> and \<open>ReentrancyGuard\<close>), the events it has emitted, and the ledger of
  the USDC token: balances, allowances and the transfers made so far.
\<close>

record chain =
  owner :: address
  paused :: bool
  status_entered :: bool
  signer :: address
  redeemed :: "bytes32 \<Rightarrow> bool"
  totalRedeemed :: uint256
  totalVouchers :: uint256
  events :: "event list"
  usdc_balances :: "address \<Rightarrow> nat"
  usdc_allowances :: "address \<Rightarrow> address \<Rightarrow> nat"
  usdc_transfers :: "(address \<times> address \<times> nat) list"

record call_env =
  msg_sender :: address
  block_timestamp :: uint256

text \<open>
  A function body returns the error it reverted with, if any, and the state it had
  reached. A revert undoes every change of the call: \<open>transact\<close> keeps the state from
  before the call.
\<close>

type_synonym body = "chain \<Rightarrow> vault_error option \<times> chain"

definition transact :: "body \<Rightarrow> chain \<Rightarrow> (vault_error + unit) \<times> chain" where
  "transact f s =
     (case f s of
        (Some e, s') \<Rightarrow> (Inl e, s)
      | (None, s') \<Rightarrow> (Inr (), s'))"

subsection \<open>The token\<close>

text \<open>
  The token is an ERC-20 ledger whose transfers revert when the balance or the allowance
  does not cover the amount, as USDC does.
\<close>

definition usdc_balanceOf :: "chain \<Rightarrow> address \<Rightarrow> nat" where
  "usdc_balanceOf s a = usdc_balances s a"

definition move_tokens :: "address \<Rightarrow> address \<Rightarrow> nat \<Rightarrow> chain \<Rightarrow> chain" where
  "move_tokens src dst amount s =
     (let b1 = (usdc_balances s)(src := usdc_balances s src - amount);
          b2 = b1(dst := b1 dst + amount)
      in s\<lparr>usdc_balances := b2, usdc_transfers := usdc_transfers s @ [(src, dst, amount)]\<rparr>)"

definition usdc_transfer :: "address \<Rightarrow> address \<Rightarrow> nat \<Rightarrow> chain \<Rightarrow> chain option" where
  "usdc_transfer src dst amount s =
     (if usdc_balances s src < amount then None else Some (move_tokens src dst amount s))"

definition usdc_transferFrom :: "address \<Rightarrow> address \<Rightarrow> address \<Rightarrow> nat \<Rightarrow> chain \<Rightarrow> chain option" where
  "usdc_transferFrom spender src dst amount s =
     (if usdc_allowances s src spender < amount \<or> usdc_balances s src < amount then None
      else Some (move_tokens src dst amount
             (s\<lparr>usdc_allowances := (usdc_allowances s)
                   (src := (usdc_allowances s src)(spender := usdc_allowances s src spender - amount))\<rparr>)))"

subsection \<open>Checked arithmetic and modifiers\<close>

definition checked_add :: "uint256 \<Rightarrow> uint256 \<Rightarrow> uint256 option" where
  "checked_add a b = (if unat a + unat b < 2 ^ 256 then Some (a + b) else None)"

definition checked_mul :: "uint256 \<Rightarrow> uint256 \<Rightarrow> uint256 option" where
  "checked_mul a b = (if unat a * unat b < 2 ^ 256 then Some (a * b) else None)"

definition nonReentrant :: "body \<Rightarrow> body" where
  "nonReentrant f s =
     (if status_entered s then (Some (Require ''ReentrancyGuard: reentrant call''), s)
      else (case f (s\<lparr>status_entered := True\<rparr>) of
              (Some e, s') \<Rightarrow> (Some e, s')
            | (None, s') \<Rightarrow> (None, s'\<lparr>status_entered := False\<rparr>)))"

definition whenNotPaused :: "body \<Rightarrow> body" where
  "whenNotPaused f s =
     (if paused s then (Some (Require ''Pausable: paused''), s) else f s)"

definition whenPaused :: "body \<Rightarrow> body" where
  "whenPaused f s =
     (if \<not> paused s then (Some (Require ''Pausable: not paused''), s) else f s)"

definition onlyOwner :: "call_env \<Rightarrow> body \<Rightarrow> body" where
  "onlyOwner env f s =
     (if owner s \<noteq> msg_sender env then (Some (Require ''Ownable: caller is not the owner''), s)
      else f s)"

subsection \<open>redeem\<close>

definition recoverSigner :: "crypto \<Rightarrow> bytes32 \<Rightarrow> bytes \<Rightarrow> vault_error + address" where
  "recoverSigner cr hash signature =
     (if length signature \<noteq> 65 then Inl InvalidSignature
      else
        (let r = from_be_bytes (take 32 signature);
             s = from_be_bytes (take 32 (drop 32 signature));
             v = signature ! 64;
             v' = (if v < 27 then v + 27 else v)
         in Inr (ecrecover cr hash v' r s)))"

definition voucherHash_of ::
  "crypto \<Rightarrow> address \<Rightarrow> uint256 \<Rightarrow> address \<Rightarrow> bytes32 \<Rightarrow> uint256 \<Rightarrow> bytes32" where
  "voucherHash_of cr self amountCents recipient nonce expiry =
     keccak256 cr (encodePacked_voucher amountCents recipient nonce expiry self)"

definition ethSignedMessageHash_of :: "crypto \<Rightarrow> bytes32 \<Rightarrow> bytes32" where
  "ethSignedMessageHash_of cr voucherHash =
     keccak256 cr (eth_message_prefix32 @ to_be_bytes 32 voucherHash)"

definition redeem_body ::
  "crypto \<Rightarrow> address \<Rightarrow> call_env \<Rightarrow> uint256 \<Rightarrow> address \<Rightarrow> bytes32 \<Rightarrow> uint256 \<Rightarrow> bytes \<Rightarrow> body" where
  "redeem_body cr self env amountCents recipient nonce expiry signature s =
     (if block_timestamp env > expiry then (Some VoucherExpired, s)
      else if recipient \<noteq> msg_sender env then (Some RecipientMismatch, s)
      else if amountCents = 0 \<or> amountCents > 100 then (Some InvalidAmount, s)
      else
        (let voucherHash = voucherHash_of cr self amountCents recipient nonce expiry
         in if redeemed s voucherHash then (Some AlreadyRedeemed, s)
            else
              (case recoverSigner cr (ethSignedMessageHash_of cr voucherHash) signature of
                 Inl e \<Rightarrow> (Some e, s)
               | Inr recovered \<Rightarrow>
                   if recovered \<noteq> signer s then (Some InvalidSignature, s)
                   else
                     (let s1 = s\<lparr>redeemed := (redeemed s)(voucherHash := True)\<rparr>
                      in case checked_mul amountCents 10000 of
                           None \<Rightarrow> (Some (Panic 17), s1)
                         | Some amountTokens \<Rightarrow>
                             if usdc_balanceOf s1 self < unat amountTokens
                             then (Some InsufficientFunds, s1)
                             else
                               (case checked_add (totalRedeemed s1) amountTokens of
                                  None \<Rightarrow> (Some (Panic 17), s1)
                                | Some tr \<Rightarrow>
                                    (let s2 = s1\<lparr>totalRedeemed := tr\<rparr>
                                     in case checked_add (totalVouchers s2) 1 of
                                          None \<Rightarrow> (Some (Panic 17), s2)
                                        | Some tv \<Rightarrow>
                                            (let s3 = s2\<lparr>totalVouchers := tv\<rparr>
                                             in case usdc_transfer self recipient (unat amountTokens) s3 of
                                                  None \<Rightarrow> (Some TokenRevert, s3)
                                                | Some s4 \<Rightarrow>
                                                    (None, s4\<lparr>events := events s4 @
                                                       [Redeemed recipient amountCents amountTokens
                                                          nonce voucherHash]\<rparr>))))))))"

definition redeem ::
  "crypto \<Rightarrow> address \<Rightarrow> call_env \<Rightarrow> uint256 \<Rightarrow> address \<Rightarrow> bytes32 \<Rightarrow> uint256 \<Rightarrow> bytes
     \<Rightarrow> chain \<Rightarrow> (vault_error + unit) \<times> chain" where
  "redeem cr self env amountCents recipient nonce expiry signature =
     transact (nonReentrant (whenNotPaused
       (redeem_body cr self env amountCents recipient nonce expiry signature)))"

definition isVoucherRedeemed ::
  "crypto \<Rightarrow> address \<Rightarrow> uint256 \<Rightarrow> address \<Rightarrow> bytes32 \<Rightarrow> uint256 \<Rightarrow> chain \<Rightarrow> bool" where
  "isVoucherRedeemed cr self amountCents recipient nonce expiry s =
     redeemed s (voucherHash_of cr self amountCents recipient nonce expiry)"

subsection \<open>The other functions of the contract\<close>

text \<open>
  Deployment: the constructors of the base contracts make the deployer the owner and
  clear the pause flag and the reentrancy status; the constructor of the vault then
  checks its arguments and hands the ownership over.
\<close>

definition constructor ::
  "call_env \<Rightarrow> address \<Rightarrow> address \<Rightarrow> address \<Rightarrow> chain \<Rightarrow> (vault_error + unit) \<times> chain" where
  "constructor env owner0 signer0 usdc0 =
     transact (\<lambda>s.
       if owner0 = 0 \<or> signer0 = 0 \<or> usdc0 = 0 then (Some ZeroAddress, s)
       else (None, s\<lparr>owner := owner0, paused := False, status_entered := False,
                      signer := signer0, redeemed := (\<lambda>h. False),
                      totalRedeemed := 0, totalVouchers := 0,
                      events := [OwnershipTransferred 0 (msg_sender env),
                                 OwnershipTransferred (msg_sender env) owner0]\<rparr>))"

definition deposit :: "address \<Rightarrow> call_env \<Rightarrow> uint256 \<Rightarrow> chain \<Rightarrow> (vault_error + unit) \<times> chain" where
  "deposit self env amount =
     transact (\<lambda>s.
       if amount = 0 then (Some InvalidAmount, s)
       else (case usdc_transferFrom self (msg_sender env) self (unat amount) s of
               None \<Rightarrow> (Some TokenRevert, s)
             | Some s1 \<Rightarrow>
                 (None, s1\<lparr>events := events s1 @ [FundsDeposited (msg_sender env) amount]\<rparr>)))"

definition withdraw ::
  "address \<Rightarrow> call_env \<Rightarrow> uint256 \<Rightarrow> address \<Rightarrow> chain \<Rightarrow> (vault_error + unit) \<times> chain" where
  "withdraw self env amount recipient =
     transact (onlyOwner env (\<lambda>s.
       if amount = 0 then (Some InvalidAmount, s)
       else if recipient = 0 then (Some ZeroAddress, s)
       else (case usdc_transfer self recipient (unat amount) s of
               None \<Rightarrow> (Some TokenRevert, s)
             | Some s1 \<Rightarrow>
                 (None, s1\<lparr>events := events s1 @ [FundsWithdrawn recipient (unat amount)]\<rparr>))))"

definition emergencyWithdraw ::
  "address \<Rightarrow> call_env \<Rightarrow> address \<Rightarrow> chain \<Rightarrow> (vault_error + unit) \<times> chain" where
  "emergencyWithdraw self env recipient =
     transact (onlyOwner env (\<lambda>s.
       if recipient = 0 then (Some ZeroAddress, s)
       else
         (let balance = usdc_balanceOf s self
          in if balance > 0 then
               (case usdc_transfer self recipient balance s of
                  None \<Rightarrow> (Some TokenRevert, s)
                | Some s1 \<Rightarrow>
                    (None, s1\<lparr>events := events s1 @ [FundsWithdrawn recipient balance]\<rparr>))
             else (None, s))))"

definition updateSigner :: "call_env \<Rightarrow> address \<Rightarrow> chain \<Rightarrow> (vault_error + unit) \<times> chain" where
  "updateSigner env newSigner =
     transact (onlyOwner env (\<lambda>s.
       if newSigner = 0 then (Some ZeroAddress, s)
       else
         (let oldSigner = signer s
          in (None, s\<lparr>signer := newSigner,
                       events := events s @ [SignerUpdated oldSigner newSigner]\<rparr>))))"

definition pause :: "call_env \<Rightarrow> chain \<Rightarrow> (vault_error + unit) \<times> chain" where
  "pause env =
     transact (onlyOwner env (whenNotPaused (\<lambda>s.
       (None, s\<lparr>paused := True, events := events s @ [Paused (msg_sender env)]\<rparr>))))"

definition unpause :: "call_env \<Rightarrow> chain \<Rightarrow> (vault_error + unit) \<times> chain" where
  "unpause env =
     transact (onlyOwner env (whenPaused (\<lambda>s.
       (None, s\<lparr>paused := False, events := events s @ [Unpaused (msg_sender env)]\<rparr>))))"

definition transferOwnership :: "call_env \<Rightarrow> address \<Rightarrow> chain \<Rightarrow> (vault_error + unit) \<times> chain" where
  "transferOwnership env newOwner =
     transact (onlyOwner env (\<lambda>s.
       if newOwner = 0 then (Some (Require ''Ownable: new owner is the zero address''), s)
       else (None, s\<lparr>owner := newOwner,
                      events := events s @ [OwnershipTransferred (owner s) newOwner]\<rparr>)))"

definition renounceOwnership :: "call_env \<Rightarrow> chain \<Rightarrow> (vault_error + unit) \<times> chain" where
  "renounceOwnership env =
     transact (onlyOwner env (\<lambda>s.
       (None, s\<lparr>owner := 0, events := events s @ [OwnershipTransferred (owner s) 0]\<rparr>)))"

subsection \<open>Transactions\<close>

text \<open>
  Every transaction that touches the contract or its token: a call of one of the
  contract's external functions, or a call of the token by some account other than the
  contract.
\<close>

datatype call =
    Redeem uint256 address bytes32 uint256 bytes
  | Deposit uint256
  | Withdraw uint256 address
  | EmergencyWithdraw address
  | UpdateSigner address
  | Pause
  | Unpause
  | TransferOwnership address
  | RenounceOwnership
  | TokenTransfer address nat
  | TokenApprove address nat

fun execute :: "crypto \<Rightarrow> address \<Rightarrow> call_env \<Rightarrow> call \<Rightarrow> chain \<Rightarrow> (vault_error + unit) \<times> chain" where
  "execute cr self env (Redeem amountCents recipient nonce expiry signature) s =
     redeem cr self env amountCents recipient nonce expiry signature s"
| "execute cr self env (Deposit amount) s = deposit self env amount s"
| "execute cr self env (Withdraw amount recipient) s = withdraw self env amount recipient s"
| "execute cr self env (EmergencyWithdraw recipient) s = emergencyWithdraw self env recipient s"
| "execute cr self env (UpdateSigner newSigner) s = updateSigner env newSigner s"
| "execute cr self env Pause s = pause env s"
| "execute cr self env Unpause s = unpause env s"
| "execute cr self env (TransferOwnership newOwner) s = transferOwnership env newOwner s"
| "execute cr self env RenounceOwnership s = renounceOwnership env s"
| "execute cr self env (TokenTransfer dst amount) s =
     (if msg_sender env = self then (Inl TokenRevert, s)
      else (case usdc_transfer (msg_sender env) dst amount s of
              None \<Rightarrow> (Inl TokenRevert, s)
            | Some s1 \<Rightarrow> (Inr (), s1)))"
| "execute cr self env (TokenApprove spender amount) s =
     (if msg_sender env = self then (Inl TokenRevert, s)
      else (Inr (), s\<lparr>usdc_allowances := (usdc_allowances s)
              (msg_sender env := (usdc_allowances s (msg_sender env))(spender := amount))\<rparr>))"


text \<open>The states reachable from a successful deployment.\<close>

inductive vault_reachable :: "crypto \<Rightarrow> address \<Rightarrow> chain \<Rightarrow> bool" for cr self where
  deployed: "constructor env0 owner0 signer0 usdc0 s0 = (Inr (), s) \<Longrightarrow> vault_reachable cr self s"
| executed: "vault_reachable cr self s \<Longrightarrow> vault_reachable cr self (snd (execute cr self env c s))"

text \<open>
  Value has been released for a commitment when the contract has emitted \<open>Redeemed\<close>
  for it and the token has recorded the transfer of that amount from the contract to the
  recipient.
\<close>

definition released :: "address \<Rightarrow> chain \<Rightarrow> bytes32 \<Rightarrow> bool" where
  "released self s h \<longleftrightarrow>
     (\<exists>recipient amountCents amountTokens nonce.
        Redeemed recipient amountCents amountTokens nonce h \<in> set (events s) \<and>
        (self, recipient, unat amountTokens) \<in> set (usdc_transfers s))"

subsection \<open>Notions used in the statements about the contract\<close>

text \<open>
  The five checks of \<open>redeem\<close> all pass: the voucher has not expired, the caller is
  the recipient, the amount is between 1 and 100, the commitment is not marked redeemed,
  and the signer recovered from the signature is the configured one.
\<close>

definition redeem_valid ::
  "crypto \<Rightarrow> address \<Rightarrow> call_env \<Rightarrow> uint256 \<Rightarrow> address \<Rightarrow> bytes32 \<Rightarrow> uint256 \<Rightarrow> bytes \<Rightarrow> chain \<Rightarrow> bool" where
  "redeem_valid cr self env amountCents recipient nonce expiry signature s \<longleftrightarrow>
     block_timestamp env \<le> expiry \<and> msg_sender env = recipient \<and>
     1 \<le> amountCents \<and> amountCents \<le> 100 \<and>
     \<not> redeemed s (voucherHash_of cr self amountCents recipient nonce expiry) \<and>
     recoverSigner cr (ethSignedMessageHash_of cr
        (voucherHash_of cr self amountCents recipient nonce expiry)) signature = Inr (signer s)"

text \<open>
  The state after a redemption that went through: the flag of the commitment set, the
  statistics updated, the tokens moved from the contract to the recipient and the event
  emitted.
\<close>

definition redeem_result ::
  "crypto \<Rightarrow> address \<Rightarrow> uint256 \<Rightarrow> address \<Rightarrow> bytes32 \<Rightarrow> uint256 \<Rightarrow> chain \<Rightarrow> chain" where
  "redeem_result cr self amountCents recipient nonce expiry s =
     (let h = voucherHash_of cr self amountCents recipient nonce expiry;
          s3 = s\<lparr>redeemed := (redeemed s)(h := True),
                 totalRedeemed := totalRedeemed s + amountCents * 10000,
                 totalVouchers := totalVouchers s + 1\<rparr>;
          s4 = move_tokens self recipient (unat amountCents * 10000) s3
      in s4\<lparr>events := events s4 @ [Redeemed recipient amountCents (amountCents * 10000) nonce h]\<rparr>)"

text \<open>
  What every transaction preserves: the reentrancy status, the events and token transfers
  recorded so far and the flags already set; and a flag that is newly set comes with the
  release of its value.
\<close>

definition grows :: "address \<Rightarrow> chain \<Rightarrow> chain \<Rightarrow> bool" where
  "grows self s s' \<longleftrightarrow>
     status_entered s' = status_entered s \<and>
     set (events s) \<subseteq> set (events s') \<and>
     set (usdc_transfers s) \<subseteq> set (usdc_transfers s') \<and>
     (\<forall>h. redeemed s h \<longrightarrow> redeemed s' h) \<and>
     (\<forall>h. redeemed s' h \<and> \<not> redeemed s h \<longrightarrow> released self s' h)"

section \<open>Voucher issuer (server/lib/crypto.ts, class CryptoService)\<close>

text \<open>
  The fields of a voucher as the issuer holds them: the amount and the expiry are
  JavaScript numbers; the recipient and the nonce are the 20 and 32 bytes that their
  hexadecimal strings denote.
\<close>

record VoucherData =
  vd_recipient :: address
  vd_amountCents :: int
  vd_nonce :: bytes32
  vd_expiry :: int

datatype issuer_error = InvalidArgument

text \<open>
  \<open>solidityPacked\<close> encodes a number as \<open>uint256\<close> when it is a safe integer that is
  not negative, and throws otherwise; an \<open>address\<close> is written as 20 bytes and a
  \<open>bytes32\<close> as 32 bytes.
\<close>

definition pack_uint256 :: "int \<Rightarrow> issuer_error + bytes" where
  "pack_uint256 v =
     (if 0 \<le> v \<and> v < 2 ^ 53 then Inr (to_be_bytes 32 (word_of_int v :: uint256))
      else Inl InvalidArgument)"

definition solidityPacked_voucher :: "VoucherData \<Rightarrow> address \<Rightarrow> issuer_error + bytes" where
  "solidityPacked_voucher voucherData contractAddress =
     (case pack_uint256 (vd_amountCents voucherData) of
        Inl err \<Rightarrow> Inl err
      | Inr b1 \<Rightarrow>
          (case pack_uint256 (vd_expiry voucherData) of
             Inl err \<Rightarrow> Inl err
           | Inr b4 \<Rightarrow>
               Inr (b1 @ to_be_bytes 20 (vd_recipient voucherData)
                       @ to_be_bytes 32 (vd_nonce voucherData)
                       @ b4 @ to_be_bytes 20 contractAddress)))"

function decimal :: "nat \<Rightarrow> string" where
  "decimal v = (if v < 10 then [char_of (48 + v)] else decimal (v div 10) @ [char_of (48 + v mod 10)])"
  by pat_completeness auto
termination
  by (relation "measure id") auto

declare decimal.simps [simp del]

text \<open>
  \<open>hashMessage\<close> hashes the prefix \<open>"\x19Ethereum Signed Message:\n"\<close>, the length of
  the message in decimal, and the message.
\<close>

definition hashMessage :: "crypto \<Rightarrow> bytes \<Rightarrow> bytes32" where
  "hashMessage cr message =
     keccak256 cr (25 # string_bytes ''Ethereum Signed Message:'' @ [10]
                     @ string_bytes (decimal (length message)) @ message)"

text \<open>\<open>signMessage\<close> returns the 65 bytes \<open>r\<close>, \<open>s\<close>, \<open>v\<close> of the signature of the hashed message.\<close>

definition signMessage :: "crypto \<Rightarrow> bytes32 \<Rightarrow> bytes \<Rightarrow> bytes" where
  "signMessage cr key message =
     (case ecdsa_sign cr key (hashMessage cr message) of
        (r, s, v) \<Rightarrow> to_be_bytes 32 r @ to_be_bytes 32 s @ [v])"

definition messageHash_of :: "crypto \<Rightarrow> VoucherData \<Rightarrow> address \<Rightarrow> issuer_error + bytes32" where
  "messageHash_of cr voucherData contractAddress =
     map_sum id (keccak256 cr) (solidityPacked_voucher voucherData contractAddress)"

definition signVoucher :: "crypto \<Rightarrow> bytes32 \<Rightarrow> VoucherData \<Rightarrow> address \<Rightarrow> issuer_error + bytes" where
  "signVoucher cr key voucherData contractAddress =
     (case messageHash_of cr voucherData contractAddress of
        Inl err \<Rightarrow> Inl err
      | Inr messageHash \<Rightarrow> Inr (signMessage cr key (to_be_bytes 32 messageHash)))"

definition getSignerAddress :: "crypto \<Rightarrow> bytes32 \<Rightarrow> address" where
  "getSignerAddress cr key = address_of cr key"

text \<open>
  The property of the signature scheme that the issuer and the validator rely on: a
  signature has \<open>v\<close> equal to 27 or 28, and \<open>ecrecover\<close> on the signed hash and
  the signature returns the address of the key that signed.
\<close>

definition ecdsa_correct :: "crypto \<Rightarrow> bool" where
  "ecdsa_correct cr \<longleftrightarrow>
     (\<forall>key h. case ecdsa_sign cr key h of
                 (r, s, v) \<Rightarrow> (v = 27 \<or> v = 28) \<and> ecrecover cr h v r s = address_of cr key)"

subsection \<open>A small instance of the primitives, for concrete runs\<close>

text \<open>
  Concrete runs of the model need concrete primitives. This instance hashes with a
  polynomial over the bytes and signs by masking the key with the hash; it has the one
  property of a signature scheme the model relies on, that recovery from a signature
  returns the address of the key that signed.
\<close>

definition toy_crypto :: crypto where
  "toy_crypto =
     \<lparr>keccak256 = (\<lambda>bs. foldl (\<lambda>acc b. acc * 31 + ucast b) 0 bs),
      ecrecover = (\<lambda>h v r s. if v = 27 \<and> r = h XOR s then ucast s else 0),
      ecdsa_sign = (\<lambda>k h. (h XOR k, k, 27)),
      address_of = (\<lambda>k. ucast k)\<rparr>"

text \<open>
  A vault deployed at address 9 by its owner 1, with the signer of key 7, holding 5 USDC,
  and a voucher of 50 cents for the account 2 that expires at time 1000.
\<close>

definition example_chain :: chain where
  "example_chain =
     \<lparr>owner = 1, paused = False, status_entered = False, signer = 7,
      redeemed = (\<lambda>h. False), totalRedeemed = 0, totalVouchers = 0,
      events = [OwnershipTransferred 0 1, OwnershipTransferred 1 1],
      usdc_balances = (\<lambda>a. if a = 9 then 5000000 else 0),
      usdc_allowances = (\<lambda>a b. 0), usdc_transfers = []\<rparr>"

definition example_voucher :: VoucherData where
  "example_voucher = \<lparr>vd_recipient = 2, vd_amountCents = 50, vd_nonce = 12345, vd_expiry = 1000\<rparr>"

definition example_signature :: bytes where
  "example_signature = (case signVoucher toy_crypto 7 example_voucher 9 of Inl err \<Rightarrow> [] | Inr sg \<Rightarrow> sg)"

section \<open>The drop endpoint (server/routes.ts, handler of POST /api/drop)\<close>


















section \<open>Properties of the outcome generator\<close>

lemma drop_rows_step:
  assumes "row < BOARD_HEIGHT" and "rng_next r = (u, r1)"
  shows "drop_rows row cx r p =
    drop_rows (Suc row)
      (if u < 1 / 2 then (if cx > 0 then cx - 1 else cx)
       else (if cx < BOARD_WIDTH - 1 then cx + 1 else cx)) r1
      (p @ [\<lparr>pp_x = (if u < 1 / 2 then (if cx > 0 then cx - 1 else cx)
       else (if cx < BOARD_WIDTH - 1 then cx + 1 else cx)) * PEG_SPACING, pp_y = int row * PEG_SPACING,
             direction = (if u < 1 / 2 then Left else Right)\<rparr>])"
  using assms by (subst drop_rows.simps) (simp add: Let_def)

lemma drop_rows_stop:
  "\<not> row < BOARD_HEIGHT \<Longrightarrow> drop_rows row cx r p = (cx, p, r)"
  by (subst drop_rows.simps) simp

lemma drop_rows_length:
  "drop_rows row cx r p = (cx', p', r') \<Longrightarrow> length p' = length p + (BOARD_HEIGHT - row)"
proof (induction "BOARD_HEIGHT - row" arbitrary: row cx r p)
  case 0
  then show ?case by (simp add: drop_rows_stop)
next
  case (Suc n)
  then have lt: "row < BOARD_HEIGHT" by simp
  obtain u r1 where nx: "rng_next r = (u, r1)"
    by (cases "rng_next r")
  from Suc.hyps(2) have n: "n = BOARD_HEIGHT - Suc row" by simp
  from Suc.prems have "length p' = length (p @ [\<lparr>pp_x = (if u < 1 / 2 then (if cx > 0 then cx - 1 else cx)
       else (if cx < BOARD_WIDTH - 1 then cx + 1 else cx)) * PEG_SPACING, pp_y = int row * PEG_SPACING,
             direction = (if u < 1 / 2 then Left else Right)\<rparr>]) + (BOARD_HEIGHT - Suc row)"
    unfolding drop_rows_step [OF lt nx] by (rule Suc.hyps(1) [OF n])
  with lt show ?case by simp
qed

lemma drop_rows_slot:
  "drop_rows row cx r p = (cx', p', r') \<Longrightarrow> 0 \<le> cx \<Longrightarrow> cx < BOARD_WIDTH
   \<Longrightarrow> 0 \<le> cx' \<and> cx' < BOARD_WIDTH"
proof (induction "BOARD_HEIGHT - row" arbitrary: row cx r p)
  case 0
  then show ?case by (simp add: drop_rows_stop)
next
  case (Suc n)
  then have lt: "row < BOARD_HEIGHT" by simp
  obtain u r1 where nx: "rng_next r = (u, r1)"
    by (cases "rng_next r")
  from Suc.hyps(2) have n: "n = BOARD_HEIGHT - Suc row" by simp
  let ?c = "(if u < 1 / 2 then (if cx > 0 then cx - 1 else cx)
       else (if cx < BOARD_WIDTH - 1 then cx + 1 else cx))"
  from Suc.prems have c: "0 \<le> ?c" "?c < BOARD_WIDTH" by auto
  from Suc.prems(1) show ?case
    unfolding drop_rows_step [OF lt nx] by (rule Suc.hyps(1) [OF n _ c])
qed

lemma rng_next_unit:
  assumes "unit_samples r" and "rng_next r = (u, r')"
  shows "0 \<le> u \<and> u < 1 \<and> unit_samples r'"
proof (cases r)
  case (SeededRandom h)
  with assms have h: "0 \<le> h" by simp
  then have pos: "0 < h * 9301 + 49297" by simp
  define h' where "h' = js_rem (h * 9301 + 49297) 233280"
  from pos have h': "h' = (h * 9301 + 49297) mod 233280"
    by (simp add: h'_def js_rem_def)
  then have b: "0 \<le> h'" "h' < 233280" by simp_all
  from assms(2) SeededRandom have u: "u = of_int h' / 233280" and r': "r' = SeededRandom h'"
    by (simp_all add: Let_def h'_def)
  from b have "(of_int h' :: rat) < 233280" by linarith
  with b u r' show ?thesis by simp
next
  case (MathRandom f)
  with assms show ?thesis by auto
qed

lemma drop_rows_unit:
  "drop_rows row cx r p = (cx', p', r') \<Longrightarrow> unit_samples r \<Longrightarrow> unit_samples r'"
proof (induction "BOARD_HEIGHT - row" arbitrary: row cx r p)
  case 0
  then show ?case by (simp add: drop_rows_stop)
next
  case (Suc n)
  then have lt: "row < BOARD_HEIGHT" by simp
  obtain u r1 where nx: "rng_next r = (u, r1)"
    by (cases "rng_next r")
  from Suc.hyps(2) have n: "n = BOARD_HEIGHT - Suc row" by simp
  from rng_next_unit [OF Suc.prems(2) nx] have r1: "unit_samples r1" by simp
  from Suc.prems(1) show ?case
    unfolding drop_rows_step [OF lt nx] by (rule Suc.hyps(1) [OF n _ r1])
qed

lemma floor_scaled_unit:
  fixes u :: rat
  assumes "0 \<le> u" "u < 1" "0 < k"
  shows "0 \<le> \<lfloor>u * of_int k\<rfloor> \<and> \<lfloor>u * of_int k\<rfloor> < k"
proof -
  from assms have "0 \<le> u * of_int k" by simp
  moreover from assms have "u * of_int k < of_int k"
    by (simp add: mult_less_cancel_right2)
  ultimately show ?thesis by (simp add: floor_less_iff)
qed

lemma pick_tier_bounds:
  assumes "\<forall>t \<in> set ts. 1 \<le> tmin t \<and> tmin t \<le> tmax t \<and> tmax t \<le> 100"
    and "0 \<le> fst (rng_next r)" and "fst (rng_next r) < 1"
  shows "1 \<le> pick_tier ts cw rw r \<and> pick_tier ts cw rw r \<le> 100"
  using assms
proof (induction ts arbitrary: cw)
  case Nil
  then show ?case by simp
next
  case (Cons t ts)
  from Cons.prems(1) have t: "1 \<le> tmin t" "tmin t \<le> tmax t" "tmax t \<le> 100" by simp_all
  from t have k: "0 < tmax t - tmin t + 1" by simp
  from floor_scaled_unit [OF Cons.prems(2,3) k] t
  have "1 \<le> \<lfloor>fst (rng_next r) * of_int (tmax t - tmin t + 1)\<rfloor> + tmin t
      \<and> \<lfloor>fst (rng_next r) * of_int (tmax t - tmin t + 1)\<rfloor> + tmin t \<le> 100"
    by linarith
  moreover from Cons have "1 \<le> pick_tier ts (cw + weight t) rw r \<and> pick_tier ts (cw + weight t) rw r \<le> 100"
    by simp
  ultimately show ?case by (simp add: Let_def)
qed

lemma calculatePrize_bounds:
  assumes "unit_samples r"
  shows "1 \<le> calculatePrize slot r \<and> calculatePrize slot r \<le> 100"
proof -
  obtain u r1 where nx: "rng_next r = (u, r1)"
    by (cases "rng_next r")
  obtain v r2 where nx2: "rng_next r1 = (v, r2)"
    by (cases "rng_next r1")
  from rng_next_unit [OF assms nx] have "unit_samples r1" by simp
  from rng_next_unit [OF this nx2] nx2 have "0 \<le> fst (rng_next r1)" "fst (rng_next r1) < 1"
    by simp_all
  moreover have "\<forall>t \<in> set PRIZE_DISTRIBUTION. 1 \<le> tmin t \<and> tmin t \<le> tmax t \<and> tmax t \<le> 100"
    by (simp add: PRIZE_DISTRIBUTION_def)
  ultimately show ?thesis
    unfolding calculatePrize_def Let_def nx prod.case by (intro pick_tier_bounds)
qed

lemma simulateDrop_shape:
  "length (dr_path (simulateDrop seed env)) = 8
   \<and> 0 \<le> dr_finalSlot (simulateDrop seed env) \<and> dr_finalSlot (simulateDrop seed env) < 7"
proof -
  obtain cx p r' where d: "drop_rows 0 (BOARD_WIDTH div 2) (choose_rng seed env) [] = (cx, p, r')"
    by (cases "drop_rows 0 (BOARD_WIDTH div 2) (choose_rng seed env) []")
  from drop_rows_length [OF d] have "length p = 8" by (simp add: BOARD_HEIGHT_def)
  moreover from drop_rows_slot [OF d] have "0 \<le> cx \<and> cx < 7" by (simp add: BOARD_WIDTH_def)
  ultimately show ?thesis by (simp add: simulateDrop_def d)
qed

lemma simulateDrop_valid:
  assumes "unit_samples (choose_rng seed env)"
  shows "validateDropResult (simulateDrop seed env)"
proof -
  obtain cx p r' where d: "drop_rows 0 (BOARD_WIDTH div 2) (choose_rng seed env) [] = (cx, p, r')"
    by (cases "drop_rows 0 (BOARD_WIDTH div 2) (choose_rng seed env) []")
  from drop_rows_unit [OF d assms] have "unit_samples r'" .
  from calculatePrize_bounds [OF this, of cx] have "1 \<le> dr_amountCents (simulateDrop seed env) \<and> dr_amountCents (simulateDrop seed env) \<le> 100"
    by (simp add: simulateDrop_def d)
  with simulateDrop_shape [of seed env] show ?thesis
    by (simp add: validateDropResult_def BOARD_WIDTH_def BOARD_HEIGHT_def)
qed

text \<open>
  C8. The prize computed by \<open>calculatePrize\<close> does not depend on its slot argument:
  for every state of the random source, any two slots give the same amount.
\<close>

theorem calculatePrize_slot_independent:
  "calculatePrize slot r = calculatePrize slot' r"
  by (simp add: calculatePrize_def)

text \<open>
  C7 (as amended). For every non-empty seed string, \<open>simulateDrop\<close> does not depend on
  the samples of \<open>Math.random\<close>: two invocations with the same seed return the same
  result, whatever the ambient random source yields in each.
\<close>

theorem simulateDrop_deterministic:
  "seed \<noteq> [] \<Longrightarrow> simulateDrop (Some seed) env1 = simulateDrop (Some seed) env2"
  by (simp add: simulateDrop_def choose_rng_def)

theorem simulateDrop_deterministic_witness:
  "''a'' \<noteq> [] \<and> simulateDrop (Some ''a'') (\<lambda>_. 0) = simulateDrop (Some ''a'') (\<lambda>_. 9 / 10)"
  using simulateDrop_deterministic [of "''a''" "\<lambda>_. 0" "\<lambda>_. 9 / 10"] by simp

text \<open>
  The empty string is falsy, so \<open>simulateDrop('')\<close> draws from \<open>Math.random\<close>: two
  invocations with the seed \<open>''\<close> differ as soon as the ambient samples differ.
\<close>

theorem simulateDrop_empty_seed_counterexample:
  "simulateDrop (Some '''') (\<lambda>_. 0) \<noteq> simulateDrop (Some '''') (\<lambda>_. 9 / 10)"
  by code_simp

text \<open>
  C6 (failing input). The seed \<open>player1\<close> hashes to a negative 32-bit integer; the
  truncating remainder keeps the generator's state negative, every sample is negative,
  and the amount computed is \<open>-3\<close>, which \<open>validateDropResult\<close> rejects.
\<close>

theorem simulateDrop_player1_amount:
  "dr_amountCents (simulateDrop (Some ''player1'') env) = - 3
   \<and> \<not> validateDropResult (simulateDrop (Some ''player1'') env)"
  by code_simp

section \<open>Properties of the quota ledger\<close>

lemma redis_quota_SETEX:
  "0 \<le> secs \<Longrightarrow> redis_quota now (redis_SETEX now db key secs v) key
     = Some \<lparr>remaining = v, windowExpiresAt = Some (now + secs * 1000)\<rparr>"
  by (simp add: redis_quota_def redis_live_def redis_SETEX_def)

lemma consume_script_cases:
  "consume_script now db key = (res, db') \<Longrightarrow>
   (case redis_quota now db key of
      None \<Rightarrow> res = 1 \<and> redis_quota now db' key = Some \<lparr>remaining = 2, windowExpiresAt = Some (now + 86400000)\<rparr>
    | Some q \<Rightarrow>
        if remaining q > 0 then res = 1 \<and> redis_quota now db' key = Some (q\<lparr>remaining := remaining q - 1\<rparr>)
        else res = 0 \<and> db' = db)"
  by (auto simp: consume_script_def redis_GET_def redis_quota_def redis_live_def redis_SETEX_def redis_DECR_def
      split: option.splits if_splits)

lemma consumeTicketFromMemory_cases:
  "consumeTicketFromMemory now w st = (ok, st') \<Longrightarrow>
   (case memory_quota now (memoryStore st) (getTicketKey w) of
      None \<Rightarrow> ok \<and> memory_quota now (memoryStore st') (getTicketKey w) = Some \<lparr>remaining = 2, windowExpiresAt = Some (now + 86400000)\<rparr>
    | Some q \<Rightarrow>
        if remaining q > 0 then ok \<and> memory_quota now (memoryStore st') (getTicketKey w) = Some (q\<lparr>remaining := remaining q - 1\<rparr>)
        else \<not> ok \<and> st' = st)
   \<and> redis st' = redis st \<and> redisAvailable st' = redisAvailable st"
  by (auto simp: consumeTicketFromMemory_def memory_quota_def Let_def
      split: option.splits if_splits)

lemma consumeTicket_memory:
  "\<not> uses_redis reachable st \<Longrightarrow>
   consumeTicket reachable now w st = consumeTicketFromMemory now w (st\<lparr>redisAvailable := False\<rparr>)"
  by (cases st) (auto simp: consumeTicket_def uses_redis_def)

lemma consumeTicket_redis:
  "uses_redis reachable st \<Longrightarrow>
   consumeTicket reachable now w st =
     (fst (consume_script now (redis st) (getTicketKey w)) = 1,
      st\<lparr>redis := snd (consume_script now (redis st) (getTicketKey w))\<rparr>)"
  by (simp add: consumeTicket_def uses_redis_def Let_def split_beta)

lemma consume_script_nonneg:
  "consume_script now db key = (res, db') \<Longrightarrow> \<forall>k e. db k = Some e \<longrightarrow> 0 \<le> rvalue e
   \<Longrightarrow> db' k = Some e \<Longrightarrow> 0 \<le> rvalue e"
  by (auto simp: consume_script_def redis_GET_def redis_live_def redis_SETEX_def redis_DECR_def
      split: option.splits if_splits)

lemma consumeTicketFromMemory_nonneg:
  "consumeTicketFromMemory now w st = (ok, st') \<Longrightarrow> tickets_nonneg st \<Longrightarrow> tickets_nonneg st'"
  by (auto simp: consumeTicketFromMemory_def tickets_nonneg_def Let_def
      split: option.splits if_splits)

lemma tickets_nonneg_flag [simp]:
  "tickets_nonneg (st\<lparr>redisAvailable := b\<rparr>) = tickets_nonneg st"
  by (simp add: tickets_nonneg_def)

lemma consumeTicket_nonneg:
  assumes "consumeTicket reachable now w st = (ok, st')" and "tickets_nonneg st"
  shows "tickets_nonneg st'"
proof (cases "uses_redis reachable st")
  case True
  obtain res db' where cs: "consume_script now (redis st) (getTicketKey w) = (res, db')"
    by (cases "consume_script now (redis st) (getTicketKey w)")
  from assms(1) True cs have st': "st' = st\<lparr>redis := db'\<rparr>"
    by (simp add: consumeTicket_redis)
  from assms(2) have "\<forall>k e. redis st k = Some e \<longrightarrow> 0 \<le> rvalue e"
    by (simp add: tickets_nonneg_def)
  from consume_script_nonneg [OF cs this] assms(2) show ?thesis
    by (simp add: st' tickets_nonneg_def)
next
  case False
  with assms show ?thesis
    by (simp add: consumeTicket_memory) (drule consumeTicketFromMemory_nonneg, simp_all)
qed

lemma getRemainingTickets_nonneg:
  "tickets_nonneg st \<Longrightarrow> tickets_nonneg (snd (getRemainingTickets reachable now w st))"
  by (auto simp: getRemainingTickets_def getTicketsFromMemory_def tickets_nonneg_def Let_def
      redis_SETEX_def split: option.splits if_splits)

lemma resetTickets_nonneg:
  "tickets_nonneg st \<Longrightarrow> tickets_nonneg (resetTickets reachable now w st)"
  by (auto simp: resetTickets_def resetTicketsInMemory_def tickets_nonneg_def
      redis_SETEX_def split: if_splits)

lemma tm_reachable_nonneg: "tm_reachable st \<Longrightarrow> tickets_nonneg st"
proof (induction rule: tm_reachable.induct)
  case (tm_init b)
  show ?case by (simp add: tickets_nonneg_def tm_initial_def)
next
  case (tm_flag st b)
  then show ?case by simp
next
  case (tm_get st reachable now w)
  then show ?case by (simp add: getRemainingTickets_nonneg)
next
  case (tm_consume st reachable now w)
  then show ?case
    using consumeTicket_nonneg [of reachable now w st] by (metis prod.collapse)
next
  case (tm_reset st reachable now w)
  then show ?case by (simp add: resetTickets_nonneg)
qed

text \<open>
  C4. \<open>consumeTicket\<close> follows the algorithm on the store the call works on (Redis
  when it is available and reachable, the memory store otherwise): with no record or an
  elapsed window it stores 2 remaining under a fresh 24 hour window and succeeds; with a
  positive count it decrements by one and succeeds; with a count of zero it fails and
  both stores are unchanged. Stored counts that are not negative stay so, and they are
  never negative in a reachable state.
\<close>

theorem consumeTicket_algorithm:
  assumes "consumeTicket reachable now w st = (ok, st')"
  shows "(case quota (uses_redis reachable st) now st (getTicketKey w) of
            None \<Rightarrow>
              ok \<and> quota (uses_redis reachable st) now st' (getTicketKey w)
                     = Some \<lparr>remaining = 3 - 1, windowExpiresAt = Some (now + 24 * 60 * 60 * 1000)\<rparr>
          | Some q \<Rightarrow>
              if remaining q > 0
              then ok \<and> quota (uses_redis reachable st) now st' (getTicketKey w)
                          = Some (q\<lparr>remaining := remaining q - 1\<rparr>)
              else \<not> ok \<and> redis st' = redis st \<and> memoryStore st' = memoryStore st)
         \<and> (tickets_nonneg st \<longrightarrow> tickets_nonneg st')
         \<and> (tm_reachable st \<longrightarrow> tickets_nonneg st')"
proof -
  have alg: "(case quota (uses_redis reachable st) now st (getTicketKey w) of
            None \<Rightarrow>
              ok \<and> quota (uses_redis reachable st) now st' (getTicketKey w)
                     = Some \<lparr>remaining = 3 - 1, windowExpiresAt = Some (now + 24 * 60 * 60 * 1000)\<rparr>
          | Some q \<Rightarrow>
              if remaining q > 0
              then ok \<and> quota (uses_redis reachable st) now st' (getTicketKey w)
                          = Some (q\<lparr>remaining := remaining q - 1\<rparr>)
              else \<not> ok \<and> redis st' = redis st \<and> memoryStore st' = memoryStore st)"
  proof (cases "uses_redis reachable st")
    case True
    obtain res db' where cs: "consume_script now (redis st) (getTicketKey w) = (res, db')"
      by (cases "consume_script now (redis st) (getTicketKey w)")
    from assms True cs have "ok = (res = 1)" and "st' = st\<lparr>redis := db'\<rparr>"
      by (simp_all add: consumeTicket_redis)
    with consume_script_cases [OF cs] True show ?thesis
      by (auto simp: quota_def split: option.splits if_splits)
  next
    case False
    with assms have "consumeTicketFromMemory now w (st\<lparr>redisAvailable := False\<rparr>) = (ok, st')"
      by (simp add: consumeTicket_memory)
    from consumeTicketFromMemory_cases [OF this] False show ?thesis
      by (auto simp: quota_def split: option.splits if_splits)
  qed
  have inv: "tickets_nonneg st \<longrightarrow> tickets_nonneg st'"
    using consumeTicket_nonneg [OF assms] by blast
  with tm_reachable_nonneg [of st] have "tm_reachable st \<longrightarrow> tickets_nonneg st'"
    by blast
  with alg inv show ?thesis by blast
qed

lemma getTicketKey_0xAB: "getTicketKey ''0xAB'' = ''tickets:0xab''"
  by code_simp

lemma tm_reachable_initial: "tm_reachable tm_initial"
  using tm_init [of False] by (simp add: tm_initial_def)

theorem consumeTicket_algorithm_witness:
  "consumeTicket False 1000 ''0xAB'' tm_initial
     = (True, tm_initial\<lparr>memoryStore := Map.empty(''tickets:0xab'' \<mapsto> \<lparr>td_tickets = 2, td_expiry = 86401000\<rparr>)\<rparr>)
   \<and> tickets_nonneg tm_initial \<and> tm_reachable tm_initial
   \<and> quota False 1000 tm_initial ''tickets:0xab'' = None
   \<and> quota False 1000 (tm_initial\<lparr>memoryStore := Map.empty(''tickets:0xab'' \<mapsto> \<lparr>td_tickets = 2, td_expiry = 86401000\<rparr>)\<rparr>)
        ''tickets:0xab'' = Some \<lparr>remaining = 2, windowExpiresAt = Some 86401000\<rparr>
   \<and> tickets_nonneg (tm_initial\<lparr>memoryStore := Map.empty(''tickets:0xab'' \<mapsto> \<lparr>td_tickets = 2, td_expiry = 86401000\<rparr>)\<rparr>)"
proof -
  let ?st' = "tm_initial\<lparr>memoryStore := Map.empty(''tickets:0xab'' \<mapsto> \<lparr>td_tickets = 2, td_expiry = 86401000\<rparr>)\<rparr>"
  have run: "consumeTicket False 1000 ''0xAB'' tm_initial = (True, ?st')"
    by (simp add: consumeTicket_def consumeTicketFromMemory_def getTicketKey_0xAB tm_initial_def)
  have nn: "tickets_nonneg tm_initial"
    by (simp add: tickets_nonneg_def tm_initial_def)
  have q: "quota False 1000 tm_initial ''tickets:0xab'' = None"
    by (simp add: quota_def memory_quota_def tm_initial_def)
  have u: "uses_redis False tm_initial = False"
    by (simp add: uses_redis_def)
  from consumeTicket_algorithm [OF run] nn tm_reachable_initial q u run show ?thesis
    by (simp add: getTicketKey_0xAB)
qed

text \<open>
  C9. The memory fallback has the semantics of the Redis script: started on the same
  quota record for the principal (absent or expired, or live with the same count and
  window), \<open>consumeTicketFromMemory\<close> and the script return the same verdict and
  leave the same quota record, as seen at any time; and an unreachable Redis makes
  \<open>consumeTicket\<close> answer from the memory store instead of failing.
\<close>

theorem memory_fallback_same_semantics:
  assumes "memory_quota now (memoryStore st) (getTicketKey w) = redis_quota now db (getTicketKey w)"
    and "consume_script now db (getTicketKey w) = (res, db')"
    and "consumeTicketFromMemory now w st = (ok, st')"
  shows "ok = (res = 1)
     \<and> memory_quota now' (memoryStore st') (getTicketKey w) = redis_quota now' db' (getTicketKey w)
     \<and> consumeTicket False now w st = consumeTicketFromMemory now w (st\<lparr>redisAvailable := False\<rparr>)"
proof -
  have "consumeTicket False now w st = consumeTicketFromMemory now w (st\<lparr>redisAvailable := False\<rparr>)"
    by (rule consumeTicket_memory) (simp add: uses_redis_def)
  moreover from assms have "ok = (res = 1)
     \<and> memory_quota now' (memoryStore st') (getTicketKey w) = redis_quota now' db' (getTicketKey w)"
    by (auto simp: consume_script_def consumeTicketFromMemory_def memory_quota_def redis_quota_def
        redis_GET_def redis_live_def redis_SETEX_def redis_DECR_def Let_def
        split: option.splits if_splits)
  ultimately show ?thesis by blast
qed


theorem memory_fallback_same_semantics_witness:
  "memory_quota 1000 (Map.empty(''tickets:0xab'' \<mapsto> \<lparr>td_tickets = 1, td_expiry = 5000\<rparr>)) ''tickets:0xab''
     = redis_quota 1000 (Map.empty(''tickets:0xab'' \<mapsto> \<lparr>rvalue = 1, expireAt = Some 5000\<rparr>)) ''tickets:0xab''
   \<and> consume_script 1000 (Map.empty(''tickets:0xab'' \<mapsto> \<lparr>rvalue = 1, expireAt = Some 5000\<rparr>)) ''tickets:0xab''
     = (1, Map.empty(''tickets:0xab'' \<mapsto> \<lparr>rvalue = 0, expireAt = Some 5000\<rparr>))
   \<and> consumeTicketFromMemory 1000 ''0xAB''
        (tm_initial\<lparr>memoryStore := Map.empty(''tickets:0xab'' \<mapsto> \<lparr>td_tickets = 1, td_expiry = 5000\<rparr>)\<rparr>)
     = (True, tm_initial\<lparr>memoryStore := Map.empty(''tickets:0xab'' \<mapsto> \<lparr>td_tickets = 0, td_expiry = 5000\<rparr>)\<rparr>)
   \<and> memory_quota 2000 (Map.empty(''tickets:0xab'' \<mapsto> \<lparr>td_tickets = 0, td_expiry = 5000\<rparr>)) ''tickets:0xab''
     = redis_quota 2000 (Map.empty(''tickets:0xab'' \<mapsto> \<lparr>rvalue = 0, expireAt = Some 5000\<rparr>)) ''tickets:0xab''"
proof -
  let ?m = "Map.empty(''tickets:0xab'' \<mapsto> \<lparr>td_tickets = 1, td_expiry = 5000\<rparr>)"
  let ?db = "Map.empty(''tickets:0xab'' \<mapsto> \<lparr>rvalue = 1, expireAt = Some 5000\<rparr>)"
  let ?st = "tm_initial\<lparr>memoryStore := ?m\<rparr>"
  have a: "memory_quota 1000 (memoryStore ?st) (getTicketKey ''0xAB'') = redis_quota 1000 ?db (getTicketKey ''0xAB'')"
    by (simp add: getTicketKey_0xAB memory_quota_def redis_quota_def redis_live_def)
  have b: "consume_script 1000 ?db (getTicketKey ''0xAB'')
      = (1, Map.empty(''tickets:0xab'' \<mapsto> \<lparr>rvalue = 0, expireAt = Some 5000\<rparr>))"
    by (simp add: getTicketKey_0xAB consume_script_def redis_GET_def redis_live_def redis_DECR_def)
  have c: "consumeTicketFromMemory 1000 ''0xAB'' ?st
      = (True, tm_initial\<lparr>memoryStore := Map.empty(''tickets:0xab'' \<mapsto> \<lparr>td_tickets = 0, td_expiry = 5000\<rparr>)\<rparr>)"
    by (simp add: getTicketKey_0xAB consumeTicketFromMemory_def tm_initial_def)
  from memory_fallback_same_semantics [OF a b c, of 2000] a b c show ?thesis
    by (simp add: getTicketKey_0xAB)
qed

section \<open>Properties of the redemption validator and the issuer\<close>

lemma transact_error_unchanged:
  "transact f s = (Inl e, s') \<Longrightarrow> s' = s"
  by (auto simp: transact_def split: prod.splits option.splits)

lemma unat_10000: "unat (10000 :: uint256) = 10000"
  by simp

lemma cents_bound:
  fixes a :: uint256
  assumes "a \<le> 100"
  shows "unat a \<le> 100"
  using assms by (simp add: word_le_nat_alt)

lemma checked_mul_cents:
  fixes a :: uint256
  assumes "a \<le> 100"
  shows "checked_mul a 10000 = Some (a * 10000)" and "unat (a * 10000) = unat a * 10000"
proof -
  from cents_bound [OF assms] have "unat a * 10000 \<le> 100 * 10000" by simp
  also have "\<dots> < (2::nat) ^ 256" by simp
  finally have lt: "unat a * unat (10000 :: uint256) < 2 ^ LENGTH(256)" by simp
  then show "checked_mul a 10000 = Some (a * 10000)"
    by (simp add: checked_mul_def)
  from lt have "unat (a * 10000) = unat a * unat (10000 :: uint256)"
    by (simp only: unat_mult_lem)
  then show "unat (a * 10000) = unat a * 10000" by simp
qed

lemma word_ge_1: "(1 \<le> (a::uint256)) = (a \<noteq> 0)"
  by (simp add: word_le_nat_alt) (metis Suc_leI unat_gt_0 not_less_eq_eq le_zero_eq unat_eq_zero)

lemma redeem_body_invalid:
  assumes "\<not> redeem_valid cr self env a rcp n e sig s"
  shows "redeem_body cr self env a rcp n e sig s =
     (Some (if block_timestamp env > e then VoucherExpired
            else if rcp \<noteq> msg_sender env then RecipientMismatch
            else if a = 0 \<or> a > 100 then InvalidAmount
            else if redeemed s (voucherHash_of cr self a rcp n e) then AlreadyRedeemed
            else InvalidSignature), s)"
  using assms
  by (auto simp: redeem_body_def redeem_valid_def Let_def word_ge_1 recoverSigner_def not_le
      split: sum.splits if_splits)

lemma redeem_body_valid:
  assumes "redeem_valid cr self env a rcp n e sig s"
  shows "redeem_body cr self env a rcp n e sig s =
     (let h = voucherHash_of cr self a rcp n e;
          s1 = s\<lparr>redeemed := (redeemed s)(h := True)\<rparr>
      in if usdc_balances s self < unat a * 10000 then (Some InsufficientFunds, s1)
         else if \<not> unat (totalRedeemed s) + unat a * 10000 < 2 ^ 256 then (Some (Panic 17), s1)
         else if \<not> unat (totalVouchers s) + 1 < 2 ^ 256
              then (Some (Panic 17), s1\<lparr>totalRedeemed := totalRedeemed s + a * 10000\<rparr>)
         else (None, redeem_result cr self a rcp n e s))"
proof -
  from assms have a: "a \<le> 100" and nz: "a \<noteq> 0" "\<not> a > 100"
    by (auto simp: redeem_valid_def word_ge_1)
  note m = checked_mul_cents [OF a]
  from assms nz m show ?thesis
    by (auto simp: redeem_body_def redeem_valid_def Let_def checked_add_def usdc_balanceOf_def
        usdc_transfer_def redeem_result_def move_tokens_def not_le not_less)
qed

lemma redeem_gate:
  "redeem cr self env a rcp n e sig s =
     (if status_entered s then (Inl (Require ''ReentrancyGuard: reentrant call''), s)
      else if paused s then (Inl (Require ''Pausable: paused''), s)
      else (case redeem_body cr self env a rcp n e sig (s\<lparr>status_entered := True\<rparr>) of
              (Some err, s') \<Rightarrow> (Inl err, s)
            | (None, s') \<Rightarrow> (Inr (), s'\<lparr>status_entered := False\<rparr>)))"
  by (simp add: redeem_def transact_def nonReentrant_def whenNotPaused_def
      split: prod.splits option.splits)

lemma redeem_valid_entered [simp]:
  "redeem_valid cr self env a rcp n e sig (s\<lparr>status_entered := b\<rparr>)
     = redeem_valid cr self env a rcp n e sig s"
  by (simp add: redeem_valid_def)

lemma redeem_result_entered:
  "\<not> status_entered s \<Longrightarrow>
   (redeem_result cr self a rcp n e (s\<lparr>status_entered := True\<rparr>))\<lparr>status_entered := False\<rparr>
     = redeem_result cr self a rcp n e s"
  by (cases s) (simp add: redeem_result_def move_tokens_def Let_def)

lemma redeem_cases:
  assumes "\<not> status_entered s" and "\<not> paused s"
  shows "redeem cr self env a rcp n e sig s =
     (if \<not> redeem_valid cr self env a rcp n e sig s then
        (Inl (if block_timestamp env > e then VoucherExpired
              else if rcp \<noteq> msg_sender env then RecipientMismatch
              else if a = 0 \<or> a > 100 then InvalidAmount
              else if redeemed s (voucherHash_of cr self a rcp n e) then AlreadyRedeemed
              else InvalidSignature), s)
      else if usdc_balances s self < unat a * 10000 then (Inl InsufficientFunds, s)
      else if \<not> (unat (totalRedeemed s) + unat a * 10000 < 2 ^ 256
                 \<and> unat (totalVouchers s) + 1 < 2 ^ 256) then (Inl (Panic 17), s)
      else (Inr (), redeem_result cr self a rcp n e s))"
proof (cases "redeem_valid cr self env a rcp n e sig s")
  case False
  then have "\<not> redeem_valid cr self env a rcp n e sig (s\<lparr>status_entered := True\<rparr>)"
    by simp
  from redeem_body_invalid [OF this] assms False show ?thesis
    by (simp add: redeem_gate)
next
  case True
  then have "redeem_valid cr self env a rcp n e sig (s\<lparr>status_entered := True\<rparr>)"
    by simp
  from redeem_body_valid [OF this] assms True show ?thesis
    by (simp add: redeem_gate Let_def redeem_result_entered)
qed

lemma redeem_either:
  assumes "redeem cr self env a rcp n e sig s = (r, s')"
  shows "(\<exists>err. r = Inl err \<and> s' = s)
       \<or> (r = Inr () \<and> \<not> status_entered s \<and> \<not> paused s
           \<and> redeem_valid cr self env a rcp n e sig s
           \<and> unat a * 10000 \<le> usdc_balances s self
           \<and> s' = redeem_result cr self a rcp n e s)"
proof (cases "status_entered s \<or> paused s")
  case True
  with assms show ?thesis by (auto simp: redeem_gate split: if_splits)
next
  case False
  then have "\<not> status_entered s" "\<not> paused s" by simp_all
  from redeem_cases [OF this, of cr self env a rcp n e sig] assms False show ?thesis
    by (auto split: if_splits)
qed

lemma redeem_result_fields:
  "redeemed (redeem_result cr self a rcp n e s) = (redeemed s)(voucherHash_of cr self a rcp n e := True)"
  "status_entered (redeem_result cr self a rcp n e s) = status_entered s"
  "paused (redeem_result cr self a rcp n e s) = paused s"
  "signer (redeem_result cr self a rcp n e s) = signer s"
  "events (redeem_result cr self a rcp n e s)
     = events s @ [Redeemed rcp a (a * 10000) n (voucherHash_of cr self a rcp n e)]"
  "usdc_transfers (redeem_result cr self a rcp n e s) = usdc_transfers s @ [(self, rcp, unat a * 10000)]"
  by (simp_all add: redeem_result_def move_tokens_def Let_def)

lemma redeem_result_balances:
  "usdc_balances (redeem_result cr self a rcp n e s) =
     ((usdc_balances s)(self := usdc_balances s self - unat a * 10000))
       (rcp := ((usdc_balances s)(self := usdc_balances s self - unat a * 10000)) rcp + unat a * 10000)"
  by (simp add: redeem_result_def move_tokens_def Let_def)

lemma grows_refl: "grows self s s"
  by (simp add: grows_def)

lemma redeem_grows:
  assumes "redeem cr self env a rcp n e sig s = (r, s')"
  shows "grows self s s'"
  using redeem_either [OF assms]
proof
  assume "\<exists>err. r = Inl err \<and> s' = s"
  then show ?thesis by (auto simp: grows_refl)
next
  assume ok: "r = Inr () \<and> \<not> status_entered s \<and> \<not> paused s
           \<and> redeem_valid cr self env a rcp n e sig s
           \<and> unat a * 10000 \<le> usdc_balances s self
           \<and> s' = redeem_result cr self a rcp n e s"
  then have a: "a \<le> 100" by (simp add: redeem_valid_def)
  have "released self s' (voucherHash_of cr self a rcp n e)"
    unfolding released_def
    by (rule exI [of _ rcp], rule exI [of _ a], rule exI [of _ "a * 10000"], rule exI [of _ n])
       (simp add: ok redeem_result_fields checked_mul_cents(2) [OF a])
  with ok show ?thesis
    by (auto simp: grows_def redeem_result_fields)
qed

lemma other_calls_grow:
  "deposit self env amount s = (r, s') \<Longrightarrow> grows self s s'"
  "withdraw self env amount rcp s = (r, s') \<Longrightarrow> grows self s s'"
  "emergencyWithdraw self env rcp s = (r, s') \<Longrightarrow> grows self s s'"
  "updateSigner env newSigner s = (r, s') \<Longrightarrow> grows self s s'"
  "pause env s = (r, s') \<Longrightarrow> grows self s s'"
  "unpause env s = (r, s') \<Longrightarrow> grows self s s'"
  "transferOwnership env newOwner s = (r, s') \<Longrightarrow> grows self s s'"
  "renounceOwnership env s = (r, s') \<Longrightarrow> grows self s s'"
  by (auto simp: grows_def deposit_def withdraw_def emergencyWithdraw_def updateSigner_def
      pause_def unpause_def transferOwnership_def renounceOwnership_def
      transact_def onlyOwner_def whenNotPaused_def whenPaused_def
      usdc_transfer_def usdc_transferFrom_def usdc_balanceOf_def move_tokens_def Let_def
      split: if_splits option.splits prod.splits)

lemma execute_grows:
  assumes "execute cr self env c s = (r, s')"
  shows "grows self s s'"
proof (cases c)
  case (Redeem a rcp n e sig)
  with assms show ?thesis by (simp add: redeem_grows)
next
  case (TokenTransfer dst amount)
  with assms show ?thesis
    by (auto simp: grows_def usdc_transfer_def move_tokens_def Let_def
        split: if_splits option.splits)
next
  case (TokenApprove sp amount)
  with assms show ?thesis
    by (auto simp: grows_def split: if_splits)
qed (use assms in \<open>simp_all add: other_calls_grow\<close>)

lemma length_to_be_bytes [simp]: "length (to_be_bytes n w) = n"
  by (induction n) simp_all

lemma from_to_be_bytes:
  "(from_be_bytes (to_be_bytes n (w :: 'a::len word)) :: 'a word) = take_bit (8 * n) w"
proof (induction n)
  case 0
  show ?case by simp
next
  case (Suc n)
  have "(push_bit (8 * n) (ucast (ucast (drop_bit (8 * n) w) :: 8 word)) :: 'a word) OR take_bit (8 * n) w
      = take_bit (8 * Suc n) w"
    by (rule bit_eqI) (auto simp: bit_simps)
  with Suc show ?case by simp
qed

lemma from_to_be_bytes_32 [simp]:
  "from_be_bytes (to_be_bytes 32 (w :: bytes32)) = w"
  by (simp add: from_to_be_bytes take_bit_word_eq_self)

lemma decimal_32: "decimal 32 = ''32''"
  by code_simp

lemma hashMessage_32:
  "hashMessage cr (to_be_bytes 32 h) = ethSignedMessageHash_of cr h"
  by (simp add: hashMessage_def ethSignedMessageHash_of_def eth_message_prefix32_def decimal_32)

lemma recoverSigner_signMessage:
  assumes "ecdsa_correct cr"
  shows "recoverSigner cr (ethSignedMessageHash_of cr h) (signMessage cr key (to_be_bytes 32 h))
           = Inr (address_of cr key)"
proof -
  obtain r s v where sg: "ecdsa_sign cr key (ethSignedMessageHash_of cr h) = (r, s, v)"
    by (cases "ecdsa_sign cr key (ethSignedMessageHash_of cr h)")
  from assms sg have v: "v = 27 \<or> v = 28"
    and rec: "ecrecover cr (ethSignedMessageHash_of cr h) v r s = address_of cr key"
    by (auto simp: ecdsa_correct_def split: prod.splits)
  from v have nv: "\<not> v < 27" by auto
  have idx: "(to_be_bytes 32 r @ to_be_bytes 32 s @ [v]) ! 64 = v"
    by (simp add: nth_append)
  from rec nv idx show ?thesis
    by (simp add: recoverSigner_def signMessage_def hashMessage_32 sg Let_def)
qed

lemma toy_ecdsa_correct: "ecdsa_correct toy_crypto"
  by (simp add: ecdsa_correct_def toy_crypto_def)

lemma messageHash_of_Inr:
  assumes "messageHash_of cr vd contractAddress = Inr h"
  shows "0 \<le> vd_amountCents vd \<and> vd_amountCents vd < 2 ^ 53
       \<and> 0 \<le> vd_expiry vd \<and> vd_expiry vd < 2 ^ 53
       \<and> h = voucherHash_of cr contractAddress (word_of_int (vd_amountCents vd)) (vd_recipient vd)
               (vd_nonce vd) (word_of_int (vd_expiry vd))"
  using assms
  by (auto simp: messageHash_of_def solidityPacked_voucher_def pack_uint256_def voucherHash_of_def
      encodePacked_voucher_def split: if_splits sum.splits)

lemma signVoucher_recovers:
  assumes "ecdsa_correct cr" and "signVoucher cr key vd contractAddress = Inr sg"
  shows "messageHash_of cr vd contractAddress
           = Inr (voucherHash_of cr contractAddress (word_of_int (vd_amountCents vd)) (vd_recipient vd)
               (vd_nonce vd) (word_of_int (vd_expiry vd)))"
    and "recoverSigner cr (ethSignedMessageHash_of cr
            (voucherHash_of cr contractAddress (word_of_int (vd_amountCents vd)) (vd_recipient vd)
               (vd_nonce vd) (word_of_int (vd_expiry vd)))) sg = Inr (address_of cr key)"
proof -
  from assms(2) obtain h where h: "messageHash_of cr vd contractAddress = Inr h"
    and sg: "sg = signMessage cr key (to_be_bytes 32 h)"
    by (auto simp: signVoucher_def split: sum.splits)
  from messageHash_of_Inr [OF h] have eq: "h = voucherHash_of cr contractAddress (word_of_int (vd_amountCents vd)) (vd_recipient vd)
               (vd_nonce vd) (word_of_int (vd_expiry vd))" by simp
  from h eq show "messageHash_of cr vd contractAddress
           = Inr (voucherHash_of cr contractAddress (word_of_int (vd_amountCents vd)) (vd_recipient vd)
               (vd_nonce vd) (word_of_int (vd_expiry vd)))" by simp
  from recoverSigner_signMessage [OF assms(1), of h key] sg eq
  show "recoverSigner cr (ethSignedMessageHash_of cr
            (voucherHash_of cr contractAddress (word_of_int (vd_amountCents vd)) (vd_recipient vd)
               (vd_nonce vd) (word_of_int (vd_expiry vd)))) sg = Inr (address_of cr key)" by simp
qed

lemma example_signVoucher:
  "signVoucher toy_crypto 7 example_voucher 9 = Inr example_signature"
  by (simp add: example_signature_def signVoucher_def messageHash_of_def
      solidityPacked_voucher_def pack_uint256_def example_voucher_def)

lemma example_redeem_valid:
  "redeem_valid toy_crypto 9 \<lparr>msg_sender = 2, block_timestamp = t\<rparr> 50 2 12345 1000
     example_signature example_chain = (t \<le> 1000)"
proof -
  from signVoucher_recovers(2) [OF toy_ecdsa_correct example_signVoucher]
  have "recoverSigner toy_crypto (ethSignedMessageHash_of toy_crypto
          (voucherHash_of toy_crypto 9 50 2 12345 1000)) example_signature = Inr 7"
    by (simp add: example_voucher_def toy_crypto_def)
  then show ?thesis
    by (simp add: redeem_valid_def example_chain_def)
qed

lemma example_redeem:
  "redeem toy_crypto 9 \<lparr>msg_sender = 2, block_timestamp = 500\<rparr> 50 2 12345 1000
     example_signature example_chain
   = (Inr (), redeem_result toy_crypto 9 50 2 12345 1000 example_chain)"
proof -
  have "\<not> status_entered example_chain" "\<not> paused example_chain"
    by (simp_all add: example_chain_def)
  from redeem_cases [OF this] example_redeem_valid [of 500] show ?thesis
    by (simp add: example_chain_def)
qed

lemma grows_released:
  assumes "grows self s s'" and "released self s h"
  shows "released self s' h"
proof -
  from assms(1) have ev: "set (events s) \<subseteq> set (events s')"
    and tr: "set (usdc_transfers s) \<subseteq> set (usdc_transfers s')"
    by (simp_all add: grows_def)
  from assms(2) obtain rcp a tk n where "Redeemed rcp a tk n h \<in> set (events s)"
    and "(self, rcp, unat tk) \<in> set (usdc_transfers s)"
    unfolding released_def by blast
  with ev tr show ?thesis
    unfolding released_def by blast
qed



lemma constructor_success:
  "constructor env0 owner0 signer0 usdc0 s0 = (Inr (), s) \<Longrightarrow>
   \<not> status_entered s \<and> \<not> paused s \<and> redeemed s = (\<lambda>h. False) \<and> signer s \<noteq> 0"
  by (auto simp: constructor_def transact_def split: if_splits)

lemma vault_reachable_invariant:
  "vault_reachable cr self s \<Longrightarrow> \<not> status_entered s \<and> (\<forall>h. redeemed s h \<longrightarrow> released self s h)"
proof (induction rule: vault_reachable.induct)
  case (deployed env0 owner0 signer0 usdc0 s0 s)
  from constructor_success [OF this] show ?case by simp
next
  case (executed s env c)
  have g: "grows self s (snd (execute cr self env c s))"
    by (rule execute_grows [of cr self env c s "fst (execute cr self env c s)"]) simp
  have "released self (snd (execute cr self env c s)) h"
    if "redeemed (snd (execute cr self env c s)) h" for h
  proof (cases "redeemed s h")
    case True
    with executed.IH have "released self s h" by simp
    with g show ?thesis by (rule grows_released)
  next
    case False
    with g that show ?thesis by (simp add: grows_def)
  qed
  with g executed.IH show ?case by (simp add: grows_def)
qed




lemma example_chain_flags:
  "\<not> status_entered example_chain" "\<not> paused example_chain"
  by (simp_all add: example_chain_def)

lemma example_reachable: "vault_reachable toy_crypto 9 example_chain"
proof -
  have "constructor \<lparr>msg_sender = 1, block_timestamp = 0\<rparr> 1 7 8 example_chain = (Inr (), example_chain)"
    by (simp add: constructor_def transact_def example_chain_def)
  then show ?thesis by (rule deployed)
qed

lemma redeem_order_unpaused:
  assumes "\<not> status_entered s" and "\<not> paused s"
  shows
    "(\<not> block_timestamp env \<le> expiry \<longrightarrow>
        redeem cr self env amountCents recipient nonce expiry signature s = (Inl VoucherExpired, s))
   \<and> (block_timestamp env \<le> expiry \<and> msg_sender env \<noteq> recipient \<longrightarrow>
        redeem cr self env amountCents recipient nonce expiry signature s = (Inl RecipientMismatch, s))
   \<and> (block_timestamp env \<le> expiry \<and> msg_sender env = recipient
        \<and> \<not> (1 \<le> amountCents \<and> amountCents \<le> 100) \<longrightarrow>
        redeem cr self env amountCents recipient nonce expiry signature s = (Inl InvalidAmount, s))
   \<and> (block_timestamp env \<le> expiry \<and> msg_sender env = recipient
        \<and> 1 \<le> amountCents \<and> amountCents \<le> 100
        \<and> redeemed s (voucherHash_of cr self amountCents recipient nonce expiry) \<longrightarrow>
        redeem cr self env amountCents recipient nonce expiry signature s = (Inl AlreadyRedeemed, s))
   \<and> (block_timestamp env \<le> expiry \<and> msg_sender env = recipient
        \<and> 1 \<le> amountCents \<and> amountCents \<le> 100
        \<and> \<not> redeemed s (voucherHash_of cr self amountCents recipient nonce expiry)
        \<and> recoverSigner cr (ethSignedMessageHash_of cr
              (voucherHash_of cr self amountCents recipient nonce expiry)) signature \<noteq> Inr (signer s) \<longrightarrow>
        redeem cr self env amountCents recipient nonce expiry signature s = (Inl InvalidSignature, s))
   \<and> (block_timestamp env \<le> expiry \<and> msg_sender env = recipient
        \<and> 1 \<le> amountCents \<and> amountCents \<le> 100
        \<and> \<not> redeemed s (voucherHash_of cr self amountCents recipient nonce expiry)
        \<and> recoverSigner cr (ethSignedMessageHash_of cr
              (voucherHash_of cr self amountCents recipient nonce expiry)) signature = Inr (signer s) \<longrightarrow>
        fst (redeem cr self env amountCents recipient nonce expiry signature s)
          \<notin> {Inl VoucherExpired, Inl RecipientMismatch, Inl InvalidAmount,
              Inl AlreadyRedeemed, Inl InvalidSignature})"
  using redeem_cases [OF assms, of cr self env amountCents recipient nonce expiry signature]
  by (auto simp: redeem_valid_def word_ge_1 not_le)

text \<open>
  C2 (as amended). A reentrant call and a call on a paused contract are rejected by the
  modifiers before any check of the body. When the contract is not paused and the call is
  not reentrant, \<open>redeem\<close> rejects with the reason of the first violated check, in this
  order: expiry (\<open>VoucherExpired\<close>), caller equals recipient (\<open>RecipientMismatch\<close>), amount
  between 1 and 100 (\<open>InvalidAmount\<close>), commitment not yet redeemed (\<open>AlreadyRedeemed\<close>),
  recovered signer equals the configured signer (\<open>InvalidSignature\<close>); the state is
  unchanged. When all five checks pass the call is not rejected with any of these five
  reasons.
\<close>

theorem redeem_validation_order:
  "(status_entered s \<longrightarrow>
      redeem cr self env amountCents recipient nonce expiry signature s
        = (Inl (Require ''ReentrancyGuard: reentrant call''), s))
   \<and> (\<not> status_entered s \<and> paused s \<longrightarrow>
      redeem cr self env amountCents recipient nonce expiry signature s
        = (Inl (Require ''Pausable: paused''), s))
   \<and> (\<not> status_entered s \<and> \<not> paused s \<longrightarrow>
     (\<not> block_timestamp env \<le> expiry \<longrightarrow>
        redeem cr self env amountCents recipient nonce expiry signature s = (Inl VoucherExpired, s))
   \<and> (block_timestamp env \<le> expiry \<and> msg_sender env \<noteq> recipient \<longrightarrow>
        redeem cr self env amountCents recipient nonce expiry signature s = (Inl RecipientMismatch, s))
   \<and> (block_timestamp env \<le> expiry \<and> msg_sender env = recipient
        \<and> \<not> (1 \<le> amountCents \<and> amountCents \<le> 100) \<longrightarrow>
        redeem cr self env amountCents recipient nonce expiry signature s = (Inl InvalidAmount, s))
   \<and> (block_timestamp env \<le> expiry \<and> msg_sender env = recipient
        \<and> 1 \<le> amountCents \<and> amountCents \<le> 100
        \<and> redeemed s (voucherHash_of cr self amountCents recipient nonce expiry) \<longrightarrow>
        redeem cr self env amountCents recipient nonce expiry signature s = (Inl AlreadyRedeemed, s))
   \<and> (block_timestamp env \<le> expiry \<and> msg_sender env = recipient
        \<and> 1 \<le> amountCents \<and> amountCents \<le> 100
        \<and> \<not> redeemed s (voucherHash_of cr self amountCents recipient nonce expiry)
        \<and> recoverSigner cr (ethSignedMessageHash_of cr
              (voucherHash_of cr self amountCents recipient nonce expiry)) signature \<noteq> Inr (signer s) \<longrightarrow>
        redeem cr self env amountCents recipient nonce expiry signature s = (Inl InvalidSignature, s))
   \<and> (block_timestamp env \<le> expiry \<and> msg_sender env = recipient
        \<and> 1 \<le> amountCents \<and> amountCents \<le> 100
        \<and> \<not> redeemed s (voucherHash_of cr self amountCents recipient nonce expiry)
        \<and> recoverSigner cr (ethSignedMessageHash_of cr
              (voucherHash_of cr self amountCents recipient nonce expiry)) signature = Inr (signer s) \<longrightarrow>
        fst (redeem cr self env amountCents recipient nonce expiry signature s)
          \<notin> {Inl VoucherExpired, Inl RecipientMismatch, Inl InvalidAmount,
              Inl AlreadyRedeemed, Inl InvalidSignature}))"
proof -
  have gate: "(status_entered s \<longrightarrow>
      redeem cr self env amountCents recipient nonce expiry signature s
        = (Inl (Require ''ReentrancyGuard: reentrant call''), s))
   \<and> (\<not> status_entered s \<and> paused s \<longrightarrow>
      redeem cr self env amountCents recipient nonce expiry signature s
        = (Inl (Require ''Pausable: paused''), s))"
    by (simp add: redeem_gate)
  from gate redeem_order_unpaused [of s env expiry cr self amountCents recipient nonce signature]
  show ?thesis by blast
qed

theorem redeem_validation_order_witness:
  "\<not> status_entered example_chain \<and> \<not> paused example_chain
   \<and> \<not> (2000 :: uint256) \<le> 1000
   \<and> redeem toy_crypto 9 \<lparr>msg_sender = 3, block_timestamp = 2000\<rparr> 0 2 12345 1000 [] example_chain
       = (Inl VoucherExpired, example_chain)
   \<and> (500 :: uint256) \<le> 1000 \<and> (3 :: address) \<noteq> 2
   \<and> redeem toy_crypto 9 \<lparr>msg_sender = 3, block_timestamp = 500\<rparr> 0 2 12345 1000 [] example_chain
       = (Inl RecipientMismatch, example_chain)
   \<and> paused (example_chain\<lparr>paused := True\<rparr>)
   \<and> redeem toy_crypto 9 \<lparr>msg_sender = 3, block_timestamp = 500\<rparr> 0 2 12345 1000 []
        (example_chain\<lparr>paused := True\<rparr>)
       = (Inl (Require ''Pausable: paused''), example_chain\<lparr>paused := True\<rparr>)"
  using redeem_validation_order [of example_chain toy_crypto 9
        "\<lparr>msg_sender = 3, block_timestamp = 2000\<rparr>" 0 2 12345 1000 "[]"]
    redeem_validation_order [of example_chain toy_crypto 9
        "\<lparr>msg_sender = 3, block_timestamp = 500\<rparr>" 0 2 12345 1000 "[]"]
    redeem_validation_order [of "example_chain\<lparr>paused := True\<rparr>" toy_crypto 9
        "\<lparr>msg_sender = 3, block_timestamp = 500\<rparr>" 0 2 12345 1000 "[]"]
    example_chain_flags
  by simp

text \<open>
  After the owner has paused the contract, the modifier \<open>whenNotPaused\<close> rejects a
  redemption before the body runs: an expired voucher is then rejected with
  \<open>Pausable: paused\<close> and not with \<open>VoucherExpired\<close>.
\<close>

theorem redeem_paused_counterexample:
  "\<not> (2000 :: uint256) \<le> 1000
   \<and> pause \<lparr>msg_sender = 1, block_timestamp = 100\<rparr> example_chain
       = (Inr (), example_chain\<lparr>paused := True, events := events example_chain @ [Paused 1]\<rparr>)
   \<and> fst (redeem toy_crypto 9 \<lparr>msg_sender = 2, block_timestamp = 2000\<rparr> 50 2 12345 1000
        example_signature (example_chain\<lparr>paused := True, events := events example_chain @ [Paused 1]\<rparr>))
       = Inl (Require ''Pausable: paused'')
   \<and> Inl (Require ''Pausable: paused'') \<noteq> (Inl VoucherExpired :: vault_error + unit)"
  by (simp add: redeem_gate pause_def transact_def onlyOwner_def whenNotPaused_def example_chain_def)




text \<open>
  C3. For a call of \<open>redeem\<close> that passes the five checks on a contract that is not
  paused: if the reserve holds less than the amount, the body sets the flag and then
  reverts with \<open>InsufficientFunds\<close>, and the call leaves the state unchanged, the flag
  not set; if the reserve covers the amount (and the two statistics counters do not
  overflow) the call succeeds, with the flag set and the tokens moved from the contract to
  the recipient. Every call either fails and leaves the state unchanged or succeeds with
  both the flag set and the tokens moved. In every reachable state, a commitment whose
  flag is set has had its value released.
\<close>

theorem redeem_flag_and_funds_atomic:
  "(\<not> status_entered s \<and> \<not> paused s
      \<and> block_timestamp env \<le> expiry \<and> msg_sender env = recipient
      \<and> 1 \<le> amountCents \<and> amountCents \<le> 100
      \<and> \<not> redeemed s (voucherHash_of cr self amountCents recipient nonce expiry)
      \<and> recoverSigner cr (ethSignedMessageHash_of cr
            (voucherHash_of cr self amountCents recipient nonce expiry)) signature = Inr (signer s)
      \<and> usdc_balanceOf s self < unat amountCents * 10000 \<longrightarrow>
        redeem cr self env amountCents recipient nonce expiry signature s = (Inl InsufficientFunds, s)
      \<and> redeem_body cr self env amountCents recipient nonce expiry signature s
          = (Some InsufficientFunds,
             s\<lparr>redeemed := (redeemed s)(voucherHash_of cr self amountCents recipient nonce expiry := True)\<rparr>))
   \<and> (\<not> status_entered s \<and> \<not> paused s
      \<and> block_timestamp env \<le> expiry \<and> msg_sender env = recipient
      \<and> 1 \<le> amountCents \<and> amountCents \<le> 100
      \<and> \<not> redeemed s (voucherHash_of cr self amountCents recipient nonce expiry)
      \<and> recoverSigner cr (ethSignedMessageHash_of cr
            (voucherHash_of cr self amountCents recipient nonce expiry)) signature = Inr (signer s)
      \<and> unat amountCents * 10000 \<le> usdc_balanceOf s self
      \<and> unat (totalRedeemed s) + unat amountCents * 10000 < 2 ^ 256
      \<and> unat (totalVouchers s) + 1 < 2 ^ 256 \<longrightarrow>
        redeem cr self env amountCents recipient nonce expiry signature s
          = (Inr (), redeem_result cr self amountCents recipient nonce expiry s))
   \<and> ((\<exists>err. redeem cr self env amountCents recipient nonce expiry signature s = (Inl err, s))
      \<or> redeem cr self env amountCents recipient nonce expiry signature s
          = (Inr (), redeem_result cr self amountCents recipient nonce expiry s)
        \<and> \<not> redeemed s (voucherHash_of cr self amountCents recipient nonce expiry)
        \<and> unat amountCents * 10000 \<le> usdc_balanceOf s self)
   \<and> redeemed (redeem_result cr self amountCents recipient nonce expiry s)
        (voucherHash_of cr self amountCents recipient nonce expiry)
   \<and> usdc_transfers (redeem_result cr self amountCents recipient nonce expiry s)
        = usdc_transfers s @ [(self, recipient, unat amountCents * 10000)]
   \<and> (recipient \<noteq> self \<longrightarrow>
        usdc_balanceOf (redeem_result cr self amountCents recipient nonce expiry s) self
          = usdc_balanceOf s self - unat amountCents * 10000
        \<and> usdc_balanceOf (redeem_result cr self amountCents recipient nonce expiry s) recipient
          = usdc_balanceOf s recipient + unat amountCents * 10000)
   \<and> (vault_reachable cr self s \<and> redeemed s h \<longrightarrow> released self s h)"
proof -
  let ?h = "voucherHash_of cr self amountCents recipient nonce expiry"
  let ?valid = "redeem_valid cr self env amountCents recipient nonce expiry signature s"
  have A: "redeem cr self env amountCents recipient nonce expiry signature s = (Inl InsufficientFunds, s)
      \<and> redeem_body cr self env amountCents recipient nonce expiry signature s
          = (Some InsufficientFunds, s\<lparr>redeemed := (redeemed s)(?h := True)\<rparr>)"
    if "\<not> status_entered s" "\<not> paused s" ?valid "usdc_balanceOf s self < unat amountCents * 10000"
    using that redeem_cases [OF that(1,2), of cr self env amountCents recipient nonce expiry signature]
      redeem_body_valid [OF that(3)]
    by (simp add: usdc_balanceOf_def Let_def)
  have B: "redeem cr self env amountCents recipient nonce expiry signature s
          = (Inr (), redeem_result cr self amountCents recipient nonce expiry s)"
    if "\<not> status_entered s" "\<not> paused s" ?valid "unat amountCents * 10000 \<le> usdc_balanceOf s self"
      "unat (totalRedeemed s) + unat amountCents * 10000 < 2 ^ 256" "unat (totalVouchers s) + 1 < 2 ^ 256"
    using that redeem_cases [OF that(1,2), of cr self env amountCents recipient nonce expiry signature]
    by (simp add: usdc_balanceOf_def)
  obtain r s' where rd: "redeem cr self env amountCents recipient nonce expiry signature s = (r, s')"
    by (cases "redeem cr self env amountCents recipient nonce expiry signature s")
  from redeem_either [OF rd] rd
  have C: "(\<exists>err. redeem cr self env amountCents recipient nonce expiry signature s = (Inl err, s))
      \<or> redeem cr self env amountCents recipient nonce expiry signature s
          = (Inr (), redeem_result cr self amountCents recipient nonce expiry s)
        \<and> \<not> redeemed s ?h \<and> unat amountCents * 10000 \<le> usdc_balanceOf s self"
    by (auto simp: redeem_valid_def usdc_balanceOf_def)
  have D: "redeemed (redeem_result cr self amountCents recipient nonce expiry s) ?h"
    "usdc_transfers (redeem_result cr self amountCents recipient nonce expiry s)
        = usdc_transfers s @ [(self, recipient, unat amountCents * 10000)]"
    by (simp_all add: redeem_result_fields)
  have E: "usdc_balanceOf (redeem_result cr self amountCents recipient nonce expiry s) self
          = usdc_balanceOf s self - unat amountCents * 10000
        \<and> usdc_balanceOf (redeem_result cr self amountCents recipient nonce expiry s) recipient
          = usdc_balanceOf s recipient + unat amountCents * 10000" if "recipient \<noteq> self"
    using that by (simp add: usdc_balanceOf_def redeem_result_balances)
  have F: "released self s h" if "vault_reachable cr self s" "redeemed s h"
    using vault_reachable_invariant [OF that(1)] that(2) by simp
  from A B C D E F show ?thesis
    by (simp add: redeem_valid_def)
qed

lemma example_recover:
  "recoverSigner toy_crypto (ethSignedMessageHash_of toy_crypto
      (voucherHash_of toy_crypto 9 50 2 12345 1000)) example_signature = Inr 7"
  using signVoucher_recovers(2) [OF toy_ecdsa_correct example_signVoucher]
  by (simp add: example_voucher_def toy_crypto_def)

lemma example_redeemed_reachable:
  "vault_reachable toy_crypto 9 (redeem_result toy_crypto 9 50 2 12345 1000 example_chain)"
  using executed [OF example_reachable, of "\<lparr>msg_sender = 2, block_timestamp = 500\<rparr>"
      "Redeem 50 2 12345 1000 example_signature"]
  by (simp add: example_redeem)

theorem redeem_flag_and_funds_atomic_witness:
  "redeem toy_crypto 9 \<lparr>msg_sender = 2, block_timestamp = 500\<rparr> 50 2 12345 1000 example_signature
      (example_chain\<lparr>usdc_balances := (\<lambda>a. 0)\<rparr>)
     = (Inl InsufficientFunds, example_chain\<lparr>usdc_balances := (\<lambda>a. 0)\<rparr>)
   \<and> redeem toy_crypto 9 \<lparr>msg_sender = 2, block_timestamp = 500\<rparr> 50 2 12345 1000 example_signature
        example_chain
     = (Inr (), redeem_result toy_crypto 9 50 2 12345 1000 example_chain)
   \<and> vault_reachable toy_crypto 9 (redeem_result toy_crypto 9 50 2 12345 1000 example_chain)
   \<and> redeemed (redeem_result toy_crypto 9 50 2 12345 1000 example_chain)
        (voucherHash_of toy_crypto 9 50 2 12345 1000)
   \<and> released 9 (redeem_result toy_crypto 9 50 2 12345 1000 example_chain)
        (voucherHash_of toy_crypto 9 50 2 12345 1000)"
proof -
  let ?env = "\<lparr>msg_sender = 2, block_timestamp = 500\<rparr>"
  let ?low = "example_chain\<lparr>usdc_balances := (\<lambda>a. 0)\<rparr>"
  let ?s1 = "redeem_result toy_crypto 9 50 2 12345 1000 example_chain"
  let ?h = "voucherHash_of toy_crypto 9 50 2 12345 1000"
  have low: "redeem toy_crypto 9 ?env 50 2 12345 1000 example_signature ?low = (Inl InsufficientFunds, ?low)"
    using redeem_flag_and_funds_atomic [where s = ?low and env = ?env and expiry = 1000
        and recipient = 2 and amountCents = 50 and cr = toy_crypto and self = 9 and nonce = 12345
        and signature = example_signature] example_recover
    by (simp add: example_chain_def usdc_balanceOf_def)
  have ok: "redeem toy_crypto 9 ?env 50 2 12345 1000 example_signature example_chain = (Inr (), ?s1)"
    using redeem_flag_and_funds_atomic [where s = example_chain and env = ?env and expiry = 1000
        and recipient = 2 and amountCents = 50 and cr = toy_crypto and self = 9 and nonce = 12345
        and signature = example_signature] example_recover
    by (simp add: example_chain_def usdc_balanceOf_def)
  have fl: "redeemed ?s1 ?h"
    by (simp add: redeem_result_fields)
  have "released 9 ?s1 ?h"
    using redeem_flag_and_funds_atomic [where s = ?s1 and cr = toy_crypto and self = 9 and h = ?h]
      example_redeemed_reachable fl
    by blast
  with low ok fl example_redeemed_reachable show ?thesis by blast
qed

text \<open>
  C5. With a signature scheme whose recovery returns the address of the signing key: for
  every voucher that \<open>signVoucher\<close> signs, the hash the issuer signs is the commitment
  that the contract at \<open>contractAddress\<close> computes from the same five fields; the signer
  that \<open>redeem\<close> recovers from the stored signature is the issuer's address; and a
  redemption by the recipient before expiry of a voucher not yet redeemed, on a contract
  configured with the issuer's address, passes all five checks.
\<close>

theorem signVoucher_verifies:
  assumes "ecdsa_correct cr"
    and "signVoucher cr key voucherData contractAddress = Inr signature"
  shows
    "messageHash_of cr voucherData contractAddress
       = Inr (voucherHash_of cr contractAddress (word_of_int (vd_amountCents voucherData))
                (vd_recipient voucherData) (vd_nonce voucherData) (word_of_int (vd_expiry voucherData)))
   \<and> recoverSigner cr (ethSignedMessageHash_of cr
         (voucherHash_of cr contractAddress (word_of_int (vd_amountCents voucherData))
            (vd_recipient voucherData) (vd_nonce voucherData) (word_of_int (vd_expiry voucherData))))
       signature = Inr (getSignerAddress cr key)
   \<and> (signer s = getSignerAddress cr key
      \<and> block_timestamp env \<le> word_of_int (vd_expiry voucherData)
      \<and> msg_sender env = vd_recipient voucherData
      \<and> 1 \<le> vd_amountCents voucherData \<and> vd_amountCents voucherData \<le> 100
      \<and> \<not> redeemed s (voucherHash_of cr contractAddress (word_of_int (vd_amountCents voucherData))
            (vd_recipient voucherData) (vd_nonce voucherData) (word_of_int (vd_expiry voucherData)))
      \<longrightarrow> redeem_valid cr contractAddress env (word_of_int (vd_amountCents voucherData))
            (vd_recipient voucherData) (vd_nonce voucherData) (word_of_int (vd_expiry voucherData))
            signature s)"
proof -
  note r = signVoucher_recovers [OF assms]
  have amt: "(1 :: uint256) \<le> word_of_int a \<and> (word_of_int a :: uint256) \<le> 100"
    if "1 \<le> a" "a \<le> 100" for a :: int
  proof -
    from that have "unat (word_of_int a :: uint256) = nat a"
      by (simp add: unat_eq_nat_uint uint_word_of_int take_bit_int_eq_self)
    with that show ?thesis
      by (simp add: word_le_nat_alt) arith
  qed
  from r amt show ?thesis
    by (simp add: getSignerAddress_def redeem_valid_def)
qed

theorem signVoucher_verifies_witness:
  "ecdsa_correct toy_crypto
   \<and> signVoucher toy_crypto 7 example_voucher 9 = Inr example_signature
   \<and> messageHash_of toy_crypto example_voucher 9 = Inr (voucherHash_of toy_crypto 9 50 2 12345 1000)
   \<and> recoverSigner toy_crypto (ethSignedMessageHash_of toy_crypto
        (voucherHash_of toy_crypto 9 50 2 12345 1000)) example_signature = Inr 7
   \<and> redeem_valid toy_crypto 9 \<lparr>msg_sender = 2, block_timestamp = 500\<rparr> 50 2 12345 1000
        example_signature example_chain"
  using signVoucher_verifies [OF toy_ecdsa_correct example_signVoucher,
      of example_chain "\<lparr>msg_sender = 2, block_timestamp = 500\<rparr>"]
    toy_ecdsa_correct example_signVoucher
  by (simp add: example_voucher_def example_chain_def getSignerAddress_def toy_crypto_def)


section \<open>Properties of the drop endpoint\<close>








end
